theory Spec2Isabelle
  imports Main "HOL-Library.Word"
begin

unbundle bit_operations_syntax

section \<open>Python values and errors\<close>

text \<open>
  The exceptions of the Python code that the embedded functions can raise. A function
  that can raise returns \<open>py_error + 'a\<close>, with \<open>Inl\<close> for the exception.
\<close>

datatype py_error =
  AssertionError string | KeyError | ValueError | IndexError | TypeError | RemoteError string

section \<open>Addresses (hazelcast/core.py)\<close>

subsection \<open>The string built-ins used by the parser\<close>















subsection \<open>Address and AddressHelper\<close>




section \<open>The map proxy (hazelcast/proxy/map.py)\<close>

subsection \<open>Values, requests, futures\<close>

text \<open>
  \<open>pyobj\<close> stands for the Python objects a caller passes as keys, values, time-to-live
  arguments and so on; \<open>PNone\<close> is \<open>None\<close>. \<open>data\<close> is the serialized form of an
  object (\<open>hazelcast.serialization.data.Data\<close>, a byte buffer).
\<close>

datatype pyobj = PNone | PBool bool | PInt int | PStr string | PList "pyobj list"

datatype data = Data (buffer: "nat list")

text \<open>
  A request is kept symbolic: the codec module whose \<open>encode_request\<close> built it, and the
  arguments in the order of the call. \<open>AName\<close> is \<open>self.name\<close>, \<open>AThreadId\<close> is
  \<open>thread_id()\<close>, \<open>AMillis t\<close> is \<open>to_millis(t)\<close>, \<open>ARefId n\<close> is the value drawn
  from the lock reference id generator.
\<close>

datatype codec =
    map_clear_codec | map_contains_key_codec | map_contains_value_codec | map_delete_codec
  | map_evict_codec | map_evict_all_codec | map_force_unlock_codec | map_get_codec
  | map_get_entry_view_codec | map_is_locked_codec | map_load_all_codec
  | map_load_given_keys_codec | map_lock_codec | map_put_codec | map_put_if_absent_codec
  | map_put_transient_codec | map_remove_codec | map_remove_if_same_codec
  | map_replace_codec | map_replace_if_same_codec | map_set_codec | map_try_lock_codec
  | map_try_put_codec | map_try_remove_codec | map_unlock_codec | map_execute_on_key_codec
  | map_set_ttl_codec | map_put_with_max_idle_codec | map_put_if_absent_with_max_idle_codec
  | map_put_transient_with_max_idle_codec | map_set_with_max_idle_codec

datatype arg = AName | AData data | ADataList "data list" | AThreadId | AMillis pyobj
  | ARefId int | ABool bool

datatype request = Request codec "arg list"

datatype target = OnKey data | Anywhere

text \<open>
  The trace records, in program order, what a call does to the near cache and which
  requests it hands to the invocation service.
\<close>

datatype event =
    Invoke request target
  | NearCacheInvalidate data
  | NearCacheClear
  | NearCacheStore data pyobj

datatype continuation = UpdateCache data

datatype future =
    ImmediateFuture pyobj
  | InvocationFuture request
  | ContinueWith future continuation

datatype map_class = Map_class | MapFeatNearCache_class

record proxy =
  cls :: map_class
  to_data :: "pyobj \<Rightarrow> data"
  near_cache :: "data \<rightharpoonup> pyobj"
  reference_id :: int
  trace :: "event list"

type_synonym 'a outcome = "(py_error + 'a) \<times> proxy"

subsection \<open>Collaborators that are not part of the sources\<close>

definition check_not_none :: "pyobj \<Rightarrow> string \<Rightarrow> py_error option" where
  \<comment> \<open>Modelled from the spec: \<open>hazelcast.util.check_not_none\<close> is not among the sources; as
      its name, its messages at the call sites and the \<open>None\<close> check of
      \<open>HazelcastJsonValue\<close> in core.py say, it raises \<open>AssertionError(message)\<close> when the
      value is \<open>None\<close> and returns otherwise.\<close>
  "check_not_none val message = (if val = PNone then Some (AssertionError message) else None)"

definition NearCache_getitem :: "(data \<rightharpoonup> pyobj) \<Rightarrow> data \<Rightarrow> py_error + pyobj" where
  \<comment> \<open>Modelled from the spec: class \<open>NearCache\<close> (hazelcast/near_cache.py) is not among the
      sources. The spec describes it as a mapping from the serialized key to the
      deserialized value; \<open>near_cache[key]\<close> raises \<open>KeyError\<close> on a miss. Expiry and
      eviction by size are not modelled.\<close>
  "NearCache_getitem nc key = (case nc key of None \<Rightarrow> Inl KeyError | Some v \<Rightarrow> Inr v)"

definition NearCache_setitem :: "(data \<rightharpoonup> pyobj) \<Rightarrow> data \<Rightarrow> pyobj \<Rightarrow> (data \<rightharpoonup> pyobj)" where
  \<comment> \<open>Modelled from the spec: \<open>NearCache.__setitem__\<close>, storing the value under the key.\<close>
  "NearCache_setitem nc key v = nc(key \<mapsto> v)"

definition NearCache_invalidate :: "(data \<rightharpoonup> pyobj) \<Rightarrow> data \<Rightarrow> (data \<rightharpoonup> pyobj)" where
  \<comment> \<open>Modelled from the spec: \<open>NearCache._invalidate\<close>, dropping the entry of the key if
      there is one.\<close>
  "NearCache_invalidate nc key = nc(key := None)"

definition NearCache_clear :: "(data \<rightharpoonup> pyobj) \<Rightarrow> (data \<rightharpoonup> pyobj)" where
  \<comment> \<open>Modelled from the spec: \<open>NearCache.clear\<close> and \<open>NearCache._clear\<close>, dropping every
      entry.\<close>
  "NearCache_clear nc = Map.empty"

definition invoke_on_key :: "proxy \<Rightarrow> request \<Rightarrow> data \<Rightarrow> future outcome" where
  \<comment> \<open>Modelled from the spec: \<open>Proxy._invoke_on_key\<close> (hazelcast/proxy/base.py) is not among
      the sources. The request is handed to the invocation service, addressed to the
      partition of the key, and the invocation's future is returned. The response handler
      is not kept: a response reaches the future already decoded.\<close>
  "invoke_on_key self request key_data =
     (Inr (InvocationFuture request), self\<lparr>trace := trace self @ [Invoke request (OnKey key_data)]\<rparr>)"

definition invoke :: "proxy \<Rightarrow> request \<Rightarrow> future outcome" where
  \<comment> \<open>Modelled from the spec: \<open>Proxy._invoke\<close>, as \<open>invoke_on_key\<close> with no partition.\<close>
  "invoke self request =
     (Inr (InvocationFuture request), self\<lparr>trace := trace self @ [Invoke request Anywhere]\<rparr>)"

definition get_and_increment :: "proxy \<Rightarrow> int \<times> proxy" where
  \<comment> \<open>Modelled from the spec: the lock reference id generator, an atomic counter.\<close>
  "get_and_increment self = (reference_id self, self\<lparr>reference_id := reference_id self + 1\<rparr>)"

definition truthy :: "pyobj \<Rightarrow> bool" where
  \<comment> \<open>The truth value of an object in \<open>if keys:\<close>.\<close>
  "truthy v = (case v of PNone \<Rightarrow> False | PBool b \<Rightarrow> b | PInt n \<Rightarrow> n \<noteq> 0
                | PStr s \<Rightarrow> s \<noteq> [] | PList xs \<Rightarrow> xs \<noteq> [])"

definition iterate :: "pyobj \<Rightarrow> py_error + pyobj list" where
  \<comment> \<open>The items of an iterable, as \<open>map(f, keys)\<close> visits them.\<close>
  "iterate v = (case v of PList xs \<Rightarrow> Inr xs | PStr s \<Rightarrow> Inr (map (\<lambda>c. PStr [c]) s)
                 | _ \<Rightarrow> Inl TypeError)"

subsection \<open>The near cache of MapFeatNearCache\<close>

definition invalidate_cache :: "proxy \<Rightarrow> data \<Rightarrow> proxy" where
  "invalidate_cache self key_data =
     self\<lparr>near_cache := NearCache_invalidate (near_cache self) key_data,
          trace := trace self @ [NearCacheInvalidate key_data]\<rparr>"

fun invalidate_cache_batch :: "proxy \<Rightarrow> data list \<Rightarrow> proxy" where
  "invalidate_cache_batch self [] = self"
| "invalidate_cache_batch self (key_data # key_data_list) =
     invalidate_cache_batch (invalidate_cache self key_data) key_data_list"

definition clear_cache :: "proxy \<Rightarrow> proxy" where
  \<comment> \<open>\<open>self._near_cache.clear()\<close> and \<open>self._near_cache._clear()\<close>\<close>
  "clear_cache self =
     self\<lparr>near_cache := NearCache_clear (near_cache self), trace := trace self @ [NearCacheClear]\<rparr>"

type_synonym uuid = "128 word"

definition handle_invalidation :: "proxy \<Rightarrow> data option \<Rightarrow> uuid \<Rightarrow> uuid \<Rightarrow> int \<Rightarrow> proxy" where
  "handle_invalidation self key source_uuid partition_uuid sequence =
     (case key of None \<Rightarrow> clear_cache self | Some k \<Rightarrow> invalidate_cache self k)"

fun handle_batch_invalidation ::
  "proxy \<Rightarrow> data list \<Rightarrow> uuid list \<Rightarrow> uuid list \<Rightarrow> int list \<Rightarrow> proxy" where
  "handle_batch_invalidation self [] source_uuids partition_uuids sequences = self"
| "handle_batch_invalidation self (key_data # keys) source_uuids partition_uuids sequences =
     handle_batch_invalidation (invalidate_cache self key_data) keys
       source_uuids partition_uuids sequences"

text \<open>
  The two kinds of invalidation event the listener delivers, with the fields the codec
  passes to the handlers.
\<close>

datatype invalidation_event =
    SingleInvalidation "data option" uuid uuid int
  | BatchInvalidation "data list" "uuid list" "uuid list" "int list"

fun handle_event :: "proxy \<Rightarrow> invalidation_event \<Rightarrow> proxy" where
  "handle_event self (SingleInvalidation key source_uuid partition_uuid sequence) =
     handle_invalidation self key source_uuid partition_uuid sequence"
| "handle_event self (BatchInvalidation keys source_uuids partition_uuids sequences) =
     handle_batch_invalidation self keys source_uuids partition_uuids sequences"

definition handle_events :: "proxy \<Rightarrow> invalidation_event list \<Rightarrow> proxy" where
  \<comment> \<open>Events of the listener are applied one after the other, in the order received.\<close>
  "handle_events self evs = foldl handle_event self evs"

fun event_sequences :: "invalidation_event \<Rightarrow> int list" where
  "event_sequences (SingleInvalidation key source_uuid partition_uuid sequence) = [sequence]"
| "event_sequences (BatchInvalidation keys source_uuids partition_uuids sequences) = sequences"

fun event_keys :: "invalidation_event \<Rightarrow> data list" where
  "event_keys (SingleInvalidation key source_uuid partition_uuid sequence) =
     (case key of None \<Rightarrow> [] | Some k \<Rightarrow> [k])"
| "event_keys (BatchInvalidation keys source_uuids partition_uuids sequences) = keys"

fun clears_all :: "invalidation_event \<Rightarrow> bool" where
  \<comment> \<open>A single event with a null key.\<close>
  "clears_all (SingleInvalidation key source_uuid partition_uuid sequence) = (key = None)"
| "clears_all (BatchInvalidation keys source_uuids partition_uuids sequences) = False"

fun has_gap :: "int list \<Rightarrow> bool" where
  \<comment> \<open>The spec's "gap": between two sequence numbers observed one after the other, at
      least one number was missed.\<close>
  "has_gap (a # b # rest) = (a + 1 < b \<or> has_gap (b # rest))"
| "has_gap _ = False"

fun set_sequences :: "(int \<Rightarrow> int) \<Rightarrow> invalidation_event \<Rightarrow> invalidation_event" where
  \<comment> \<open>The same event with other sequence numbers.\<close>
  "set_sequences f (SingleInvalidation key source_uuid partition_uuid sequence) =
     SingleInvalidation key source_uuid partition_uuid (f sequence)"
| "set_sequences f (BatchInvalidation keys source_uuids partition_uuids sequences) =
     BatchInvalidation keys source_uuids partition_uuids (map f sequences)"


subsection \<open>class Map: the internal operations\<close>

definition Map_contains_key_internal :: "proxy \<Rightarrow> data \<Rightarrow> future outcome" where
  "Map_contains_key_internal self key_data =
     (let request = Request map_contains_key_codec [AName, AData key_data, AThreadId]
      in invoke_on_key self request key_data)"

definition Map_get_internal :: "proxy \<Rightarrow> data \<Rightarrow> future outcome" where
  "Map_get_internal self key_data =
     (let request = Request map_get_codec [AName, AData key_data, AThreadId]
      in invoke_on_key self request key_data)"

definition Map_remove_internal :: "proxy \<Rightarrow> data \<Rightarrow> future outcome" where
  "Map_remove_internal self key_data =
     (let request = Request map_remove_codec [AName, AData key_data, AThreadId]
      in invoke_on_key self request key_data)"

definition Map_remove_if_same_internal :: "proxy \<Rightarrow> data \<Rightarrow> data \<Rightarrow> future outcome" where
  "Map_remove_if_same_internal self key_data value_data =
     (let request = Request map_remove_if_same_codec
                      [AName, AData key_data, AData value_data, AThreadId]
      in invoke_on_key self request key_data)"

definition Map_delete_internal :: "proxy \<Rightarrow> data \<Rightarrow> future outcome" where
  "Map_delete_internal self key_data =
     (let request = Request map_delete_codec [AName, AData key_data, AThreadId]
      in invoke_on_key self request key_data)"

definition Map_put_internal ::
  "proxy \<Rightarrow> data \<Rightarrow> data \<Rightarrow> pyobj \<Rightarrow> pyobj \<Rightarrow> future outcome" where
  "Map_put_internal self key_data value_data ttl max_idle =
     (let request =
        (if max_idle \<noteq> PNone
         then Request map_put_with_max_idle_codec
                [AName, AData key_data, AData value_data, AThreadId, AMillis ttl, AMillis max_idle]
         else Request map_put_codec
                [AName, AData key_data, AData value_data, AThreadId, AMillis ttl])
      in invoke_on_key self request key_data)"

definition Map_set_internal ::
  "proxy \<Rightarrow> data \<Rightarrow> data \<Rightarrow> pyobj \<Rightarrow> pyobj \<Rightarrow> future outcome" where
  "Map_set_internal self key_data value_data ttl max_idle =
     (let request =
        (if max_idle \<noteq> PNone
         then Request map_set_with_max_idle_codec
                [AName, AData key_data, AData value_data, AThreadId, AMillis ttl, AMillis max_idle]
         else Request map_set_codec
                [AName, AData key_data, AData value_data, AThreadId, AMillis ttl])
      in invoke_on_key self request key_data)"

definition Map_set_ttl_internal :: "proxy \<Rightarrow> data \<Rightarrow> pyobj \<Rightarrow> future outcome" where
  "Map_set_ttl_internal self key_data ttl =
     (let request = Request map_set_ttl_codec [AName, AData key_data, AMillis ttl]
      in invoke_on_key self request key_data)"

definition Map_try_remove_internal :: "proxy \<Rightarrow> data \<Rightarrow> pyobj \<Rightarrow> future outcome" where
  "Map_try_remove_internal self key_data timeout =
     (let request = Request map_try_remove_codec [AName, AData key_data, AThreadId, AMillis timeout]
      in invoke_on_key self request key_data)"

definition Map_try_put_internal :: "proxy \<Rightarrow> data \<Rightarrow> data \<Rightarrow> pyobj \<Rightarrow> future outcome" where
  "Map_try_put_internal self key_data value_data timeout =
     (let request = Request map_try_put_codec
                      [AName, AData key_data, AData value_data, AThreadId, AMillis timeout]
      in invoke_on_key self request key_data)"

definition Map_put_transient_internal ::
  "proxy \<Rightarrow> data \<Rightarrow> data \<Rightarrow> pyobj \<Rightarrow> pyobj \<Rightarrow> future outcome" where
  "Map_put_transient_internal self key_data value_data ttl max_idle =
     (let request =
        (if max_idle \<noteq> PNone
         then Request map_put_transient_with_max_idle_codec
                [AName, AData key_data, AData value_data, AThreadId, AMillis ttl, AMillis max_idle]
         else Request map_put_transient_codec
                [AName, AData key_data, AData value_data, AThreadId, AMillis ttl])
      in invoke_on_key self request key_data)"

definition Map_put_if_absent_internal ::
  "proxy \<Rightarrow> data \<Rightarrow> data \<Rightarrow> pyobj \<Rightarrow> pyobj \<Rightarrow> future outcome" where
  "Map_put_if_absent_internal self key_data value_data ttl max_idle =
     (let request =
        (if max_idle \<noteq> PNone
         then Request map_put_if_absent_with_max_idle_codec
                [AName, AData key_data, AData value_data, AThreadId, AMillis ttl, AMillis max_idle]
         else Request map_put_if_absent_codec
                [AName, AData key_data, AData value_data, AThreadId, AMillis ttl])
      in invoke_on_key self request key_data)"

definition Map_replace_if_same_internal ::
  "proxy \<Rightarrow> data \<Rightarrow> data \<Rightarrow> data \<Rightarrow> future outcome" where
  "Map_replace_if_same_internal self key_data old_value_data new_value_data =
     (let request = Request map_replace_if_same_codec
                      [AName, AData key_data, AData old_value_data, AData new_value_data, AThreadId]
      in invoke_on_key self request key_data)"

definition Map_replace_internal :: "proxy \<Rightarrow> data \<Rightarrow> data \<Rightarrow> future outcome" where
  "Map_replace_internal self key_data value_data =
     (let request = Request map_replace_codec [AName, AData key_data, AData value_data, AThreadId]
      in invoke_on_key self request key_data)"

definition Map_evict_internal :: "proxy \<Rightarrow> data \<Rightarrow> future outcome" where
  "Map_evict_internal self key_data =
     (let request = Request map_evict_codec [AName, AData key_data, AThreadId]
      in invoke_on_key self request key_data)"

definition Map_load_all_internal :: "proxy \<Rightarrow> data list \<Rightarrow> bool \<Rightarrow> future outcome" where
  "Map_load_all_internal self key_data_list replace_existing_values =
     (let request = Request map_load_given_keys_codec
                      [AName, ADataList key_data_list, ABool replace_existing_values]
      in invoke self request)"

definition Map_execute_on_key_internal :: "proxy \<Rightarrow> data \<Rightarrow> pyobj \<Rightarrow> future outcome" where
  "Map_execute_on_key_internal self key_data entry_processor =
     (let entry_processor_data = to_data self entry_processor;
          request = Request map_execute_on_key_codec
                      [AName, AData entry_processor_data, AData key_data, AThreadId]
      in invoke_on_key self request key_data)"

subsection \<open>class MapFeatNearCache: the overridden internal operations\<close>

definition MapFeatNearCache_contains_key_internal ::
  "proxy \<Rightarrow> data \<Rightarrow> (pyobj + future) outcome" where
  \<comment> \<open>On a hit the cached value itself is returned, not a future.\<close>
  "MapFeatNearCache_contains_key_internal self key_data =
     (case NearCache_getitem (near_cache self) key_data of
        Inr v \<Rightarrow> (Inr (Inl v), self)
      | Inl e \<Rightarrow>
          (case Map_contains_key_internal self key_data of
             (Inl e', self') \<Rightarrow> (Inl e', self')
           | (Inr f, self') \<Rightarrow> (Inr (Inr f), self')))"

definition MapFeatNearCache_get_internal :: "proxy \<Rightarrow> data \<Rightarrow> future outcome" where
  "MapFeatNearCache_get_internal self key_data =
     (case NearCache_getitem (near_cache self) key_data of
        Inr v \<Rightarrow> (Inr (ImmediateFuture v), self)
      | Inl e \<Rightarrow>
          (case Map_get_internal self key_data of
             (Inl e', self') \<Rightarrow> (Inl e', self')
           | (Inr future, self') \<Rightarrow> (Inr (ContinueWith future (UpdateCache key_data)), self')))"

definition update_cache :: "proxy \<Rightarrow> py_error + pyobj \<Rightarrow> data \<Rightarrow> pyobj outcome" where
  \<comment> \<open>\<open>_update_cache(f, key_data)\<close>, with \<open>f\<close> given by what \<open>f.result()\<close> yields: the
      value, or the exception it raises.\<close>
  "update_cache self f key_data =
     (case f of
        Inl e \<Rightarrow> (Inl e, self)
      | Inr v \<Rightarrow>
          (Inr v, self\<lparr>near_cache := NearCache_setitem (near_cache self) key_data v,
                       trace := trace self @ [NearCacheStore key_data v]\<rparr>))"

fun complete :: "future \<Rightarrow> py_error + pyobj \<Rightarrow> proxy \<Rightarrow> pyobj outcome" where
  \<comment> \<open>Modelled from the spec: class \<open>Future\<close> (hazelcast/future.py) is not among the sources.
      \<open>complete fut r self\<close> is what \<open>fut\<close> resolves to, and what its continuations do,
      when the invocation under it ends with \<open>r\<close> (the decoded response, or the error). A
      continuation runs with the completed future; what it returns or raises resolves the
      future that \<open>continue_with\<close> returned.\<close>
  "complete (ImmediateFuture v) r self = (Inr v, self)"
| "complete (InvocationFuture request) r self = (r, self)"
| "complete (ContinueWith f (UpdateCache key_data)) r self =
     (case complete f r self of (res, self') \<Rightarrow> update_cache self' res key_data)"

definition MapFeatNearCache_try_remove_internal ::
  "proxy \<Rightarrow> data \<Rightarrow> pyobj \<Rightarrow> future outcome" where
  "MapFeatNearCache_try_remove_internal self key_data timeout =
     Map_try_remove_internal (invalidate_cache self key_data) key_data timeout"

definition MapFeatNearCache_try_put_internal ::
  "proxy \<Rightarrow> data \<Rightarrow> data \<Rightarrow> pyobj \<Rightarrow> future outcome" where
  "MapFeatNearCache_try_put_internal self key_data value_data timeout =
     Map_try_put_internal (invalidate_cache self key_data) key_data value_data timeout"

definition MapFeatNearCache_set_internal ::
  "proxy \<Rightarrow> data \<Rightarrow> data \<Rightarrow> pyobj \<Rightarrow> pyobj \<Rightarrow> future outcome" where
  "MapFeatNearCache_set_internal self key_data value_data ttl max_idle =
     Map_set_internal (invalidate_cache self key_data) key_data value_data ttl max_idle"

definition MapFeatNearCache_set_ttl_internal ::
  "proxy \<Rightarrow> data \<Rightarrow> pyobj \<Rightarrow> future outcome" where
  "MapFeatNearCache_set_ttl_internal self key_data ttl =
     Map_set_ttl_internal (invalidate_cache self key_data) key_data ttl"

definition MapFeatNearCache_replace_internal ::
  "proxy \<Rightarrow> data \<Rightarrow> data \<Rightarrow> future outcome" where
  "MapFeatNearCache_replace_internal self key_data value_data =
     Map_replace_internal (invalidate_cache self key_data) key_data value_data"

definition MapFeatNearCache_replace_if_same_internal ::
  "proxy \<Rightarrow> data \<Rightarrow> data \<Rightarrow> data \<Rightarrow> future outcome" where
  "MapFeatNearCache_replace_if_same_internal self key_data old_value_data new_value_data =
     Map_replace_if_same_internal (invalidate_cache self key_data) key_data old_value_data new_value_data"

definition MapFeatNearCache_remove_internal ::
  "proxy \<Rightarrow> data \<Rightarrow> future outcome" where
  "MapFeatNearCache_remove_internal self key_data =
     Map_remove_internal (invalidate_cache self key_data) key_data"

definition MapFeatNearCache_remove_if_same_internal ::
  "proxy \<Rightarrow> data \<Rightarrow> data \<Rightarrow> future outcome" where
  "MapFeatNearCache_remove_if_same_internal self key_data value_data =
     Map_remove_if_same_internal (invalidate_cache self key_data) key_data value_data"

definition MapFeatNearCache_put_transient_internal ::
  "proxy \<Rightarrow> data \<Rightarrow> data \<Rightarrow> pyobj \<Rightarrow> pyobj \<Rightarrow> future outcome" where
  "MapFeatNearCache_put_transient_internal self key_data value_data ttl max_idle =
     Map_put_transient_internal (invalidate_cache self key_data) key_data value_data ttl max_idle"

definition MapFeatNearCache_put_internal ::
  "proxy \<Rightarrow> data \<Rightarrow> data \<Rightarrow> pyobj \<Rightarrow> pyobj \<Rightarrow> future outcome" where
  "MapFeatNearCache_put_internal self key_data value_data ttl max_idle =
     Map_put_internal (invalidate_cache self key_data) key_data value_data ttl max_idle"

definition MapFeatNearCache_put_if_absent_internal ::
  "proxy \<Rightarrow> data \<Rightarrow> data \<Rightarrow> pyobj \<Rightarrow> pyobj \<Rightarrow> future outcome" where
  "MapFeatNearCache_put_if_absent_internal self key_data value_data ttl max_idle =
     Map_put_if_absent_internal (invalidate_cache self key_data) key_data value_data ttl max_idle"

definition MapFeatNearCache_load_all_internal ::
  "proxy \<Rightarrow> data list \<Rightarrow> bool \<Rightarrow> future outcome" where
  "MapFeatNearCache_load_all_internal self key_data_list replace_existing_values =
     Map_load_all_internal (invalidate_cache_batch self key_data_list)
       key_data_list replace_existing_values"

definition MapFeatNearCache_execute_on_key_internal ::
  "proxy \<Rightarrow> data \<Rightarrow> pyobj \<Rightarrow> future outcome" where
  "MapFeatNearCache_execute_on_key_internal self key_data entry_processor =
     Map_execute_on_key_internal (invalidate_cache self key_data) key_data entry_processor"

definition MapFeatNearCache_evict_internal ::
  "proxy \<Rightarrow> data \<Rightarrow> future outcome" where
  "MapFeatNearCache_evict_internal self key_data =
     Map_evict_internal (invalidate_cache self key_data) key_data"

definition MapFeatNearCache_delete_internal ::
  "proxy \<Rightarrow> data \<Rightarrow> future outcome" where
  "MapFeatNearCache_delete_internal self key_data =
     Map_delete_internal (invalidate_cache self key_data) key_data"

subsection \<open>Method resolution\<close>

text \<open>
  A public method of \<open>Map\<close> calls \<open>self._x_internal\<close>; on a \<open>MapFeatNearCache\<close> object
  that is the override. \<open>self_x_internal\<close> is the method the call resolves to.
\<close>

definition self_get_internal ::
  "proxy \<Rightarrow> data \<Rightarrow> future outcome" where
  "self_get_internal self key_data =
     (case cls self of
        Map_class \<Rightarrow> Map_get_internal self key_data
      | MapFeatNearCache_class \<Rightarrow> MapFeatNearCache_get_internal self key_data)"

definition self_try_remove_internal ::
  "proxy \<Rightarrow> data \<Rightarrow> pyobj \<Rightarrow> future outcome" where
  "self_try_remove_internal self key_data timeout =
     (case cls self of
        Map_class \<Rightarrow> Map_try_remove_internal self key_data timeout
      | MapFeatNearCache_class \<Rightarrow> MapFeatNearCache_try_remove_internal self key_data timeout)"

definition self_try_put_internal ::
  "proxy \<Rightarrow> data \<Rightarrow> data \<Rightarrow> pyobj \<Rightarrow> future outcome" where
  "self_try_put_internal self key_data value_data timeout =
     (case cls self of
        Map_class \<Rightarrow> Map_try_put_internal self key_data value_data timeout
      | MapFeatNearCache_class \<Rightarrow> MapFeatNearCache_try_put_internal self key_data value_data timeout)"

definition self_set_internal ::
  "proxy \<Rightarrow> data \<Rightarrow> data \<Rightarrow> pyobj \<Rightarrow> pyobj \<Rightarrow> future outcome" where
  "self_set_internal self key_data value_data ttl max_idle =
     (case cls self of
        Map_class \<Rightarrow> Map_set_internal self key_data value_data ttl max_idle
      | MapFeatNearCache_class \<Rightarrow> MapFeatNearCache_set_internal self key_data value_data ttl max_idle)"

definition self_set_ttl_internal ::
  "proxy \<Rightarrow> data \<Rightarrow> pyobj \<Rightarrow> future outcome" where
  "self_set_ttl_internal self key_data ttl =
     (case cls self of
        Map_class \<Rightarrow> Map_set_ttl_internal self key_data ttl
      | MapFeatNearCache_class \<Rightarrow> MapFeatNearCache_set_ttl_internal self key_data ttl)"

definition self_replace_internal ::
  "proxy \<Rightarrow> data \<Rightarrow> data \<Rightarrow> future outcome" where
  "self_replace_internal self key_data value_data =
     (case cls self of
        Map_class \<Rightarrow> Map_replace_internal self key_data value_data
      | MapFeatNearCache_class \<Rightarrow> MapFeatNearCache_replace_internal self key_data value_data)"

definition self_replace_if_same_internal ::
  "proxy \<Rightarrow> data \<Rightarrow> data \<Rightarrow> data \<Rightarrow> future outcome" where
  "self_replace_if_same_internal self key_data old_value_data new_value_data =
     (case cls self of
        Map_class \<Rightarrow> Map_replace_if_same_internal self key_data old_value_data new_value_data
      | MapFeatNearCache_class \<Rightarrow> MapFeatNearCache_replace_if_same_internal self key_data old_value_data new_value_data)"

definition self_remove_internal ::
  "proxy \<Rightarrow> data \<Rightarrow> future outcome" where
  "self_remove_internal self key_data =
     (case cls self of
        Map_class \<Rightarrow> Map_remove_internal self key_data
      | MapFeatNearCache_class \<Rightarrow> MapFeatNearCache_remove_internal self key_data)"

definition self_remove_if_same_internal ::
  "proxy \<Rightarrow> data \<Rightarrow> data \<Rightarrow> future outcome" where
  "self_remove_if_same_internal self key_data value_data =
     (case cls self of
        Map_class \<Rightarrow> Map_remove_if_same_internal self key_data value_data
      | MapFeatNearCache_class \<Rightarrow> MapFeatNearCache_remove_if_same_internal self key_data value_data)"

definition self_put_transient_internal ::
  "proxy \<Rightarrow> data \<Rightarrow> data \<Rightarrow> pyobj \<Rightarrow> pyobj \<Rightarrow> future outcome" where
  "self_put_transient_internal self key_data value_data ttl max_idle =
     (case cls self of
        Map_class \<Rightarrow> Map_put_transient_internal self key_data value_data ttl max_idle
      | MapFeatNearCache_class \<Rightarrow> MapFeatNearCache_put_transient_internal self key_data value_data ttl max_idle)"

definition self_put_internal ::
  "proxy \<Rightarrow> data \<Rightarrow> data \<Rightarrow> pyobj \<Rightarrow> pyobj \<Rightarrow> future outcome" where
  "self_put_internal self key_data value_data ttl max_idle =
     (case cls self of
        Map_class \<Rightarrow> Map_put_internal self key_data value_data ttl max_idle
      | MapFeatNearCache_class \<Rightarrow> MapFeatNearCache_put_internal self key_data value_data ttl max_idle)"

definition self_put_if_absent_internal ::
  "proxy \<Rightarrow> data \<Rightarrow> data \<Rightarrow> pyobj \<Rightarrow> pyobj \<Rightarrow> future outcome" where
  "self_put_if_absent_internal self key_data value_data ttl max_idle =
     (case cls self of
        Map_class \<Rightarrow> Map_put_if_absent_internal self key_data value_data ttl max_idle
      | MapFeatNearCache_class \<Rightarrow> MapFeatNearCache_put_if_absent_internal self key_data value_data ttl max_idle)"

definition self_load_all_internal ::
  "proxy \<Rightarrow> data list \<Rightarrow> bool \<Rightarrow> future outcome" where
  "self_load_all_internal self key_data_list replace_existing_values =
     (case cls self of
        Map_class \<Rightarrow> Map_load_all_internal self key_data_list replace_existing_values
      | MapFeatNearCache_class \<Rightarrow> MapFeatNearCache_load_all_internal self key_data_list replace_existing_values)"

definition self_execute_on_key_internal ::
  "proxy \<Rightarrow> data \<Rightarrow> pyobj \<Rightarrow> future outcome" where
  "self_execute_on_key_internal self key_data entry_processor =
     (case cls self of
        Map_class \<Rightarrow> Map_execute_on_key_internal self key_data entry_processor
      | MapFeatNearCache_class \<Rightarrow> MapFeatNearCache_execute_on_key_internal self key_data entry_processor)"

definition self_evict_internal ::
  "proxy \<Rightarrow> data \<Rightarrow> future outcome" where
  "self_evict_internal self key_data =
     (case cls self of
        Map_class \<Rightarrow> Map_evict_internal self key_data
      | MapFeatNearCache_class \<Rightarrow> MapFeatNearCache_evict_internal self key_data)"

definition self_delete_internal ::
  "proxy \<Rightarrow> data \<Rightarrow> future outcome" where
  "self_delete_internal self key_data =
     (case cls self of
        Map_class \<Rightarrow> Map_delete_internal self key_data
      | MapFeatNearCache_class \<Rightarrow> MapFeatNearCache_delete_internal self key_data)"

definition self_contains_key_internal :: "proxy \<Rightarrow> data \<Rightarrow> (pyobj + future) outcome" where
  "self_contains_key_internal self key_data =
     (case cls self of
        Map_class \<Rightarrow>
          (case Map_contains_key_internal self key_data of
             (Inl e, self') \<Rightarrow> (Inl e, self')
           | (Inr f, self') \<Rightarrow> (Inr (Inr f), self'))
      | MapFeatNearCache_class \<Rightarrow> MapFeatNearCache_contains_key_internal self key_data)"

subsection \<open>class Map: the public operations\<close>

definition raising :: "py_error option \<Rightarrow> proxy \<Rightarrow> 'a outcome \<Rightarrow> 'a outcome" where
  \<comment> \<open>A statement that may raise, followed by the rest of the method body: when it raises,
      the rest is not run and the proxy is as it was.\<close>
  "raising check self rest = (case check of Some e \<Rightarrow> (Inl e, self) | None \<Rightarrow> rest)"

definition Map_contains_key ::
  "proxy \<Rightarrow> pyobj \<Rightarrow> (pyobj + future) outcome" where
  "Map_contains_key self key =
     (raising (check_not_none key ''key can't be None'') self
     (let key_data = to_data self key
      in self_contains_key_internal self key_data))"

definition Map_contains_value ::
  "proxy \<Rightarrow> pyobj \<Rightarrow> future outcome" where
  "Map_contains_value self value =
     (raising (check_not_none value ''value can't be None'') self
     (let value_data = to_data self value;
          request = Request map_contains_value_codec [AName, AData value_data]
      in invoke self request))"

definition Map_delete ::
  "proxy \<Rightarrow> pyobj \<Rightarrow> future outcome" where
  "Map_delete self key =
     (raising (check_not_none key ''key can't be None'') self
     (let key_data = to_data self key
      in self_delete_internal self key_data))"

definition Map_evict ::
  "proxy \<Rightarrow> pyobj \<Rightarrow> future outcome" where
  "Map_evict self key =
     (raising (check_not_none key ''key can't be None'') self
     (let key_data = to_data self key
      in self_evict_internal self key_data))"

definition Map_execute_on_key ::
  "proxy \<Rightarrow> pyobj \<Rightarrow> pyobj \<Rightarrow> future outcome" where
  "Map_execute_on_key self key entry_processor =
     (raising (check_not_none key ''key can't be None'') self
     (let key_data = to_data self key
      in self_execute_on_key_internal self key_data entry_processor))"

definition Map_force_unlock ::
  "proxy \<Rightarrow> pyobj \<Rightarrow> future outcome" where
  "Map_force_unlock self key =
     (raising (check_not_none key ''key can't be None'') self
     (let key_data = to_data self key;
          (ref_id, self1) = get_and_increment self;
          request = Request map_force_unlock_codec [AName, AData key_data, ARefId ref_id]
      in invoke_on_key self1 request key_data))"

definition Map_get ::
  "proxy \<Rightarrow> pyobj \<Rightarrow> future outcome" where
  "Map_get self key =
     (raising (check_not_none key ''key can't be None'') self
     (let key_data = to_data self key
      in self_get_internal self key_data))"

definition Map_get_entry_view ::
  "proxy \<Rightarrow> pyobj \<Rightarrow> future outcome" where
  "Map_get_entry_view self key =
     (raising (check_not_none key ''key can't be None'') self
     (let key_data = to_data self key;
          request = Request map_get_entry_view_codec [AName, AData key_data, AThreadId]
      in invoke_on_key self request key_data))"

definition Map_is_locked ::
  "proxy \<Rightarrow> pyobj \<Rightarrow> future outcome" where
  "Map_is_locked self key =
     (raising (check_not_none key ''key can't be None'') self
     (let key_data = to_data self key;
          request = Request map_is_locked_codec [AName, AData key_data]
      in invoke_on_key self request key_data))"

definition Map_lock ::
  "proxy \<Rightarrow> pyobj \<Rightarrow> pyobj \<Rightarrow> future outcome" where
  "Map_lock self key lease_time =
     (raising (check_not_none key ''key can't be None'') self
     (let key_data = to_data self key;
          (ref_id, self1) = get_and_increment self;
          request = Request map_lock_codec
                      [AName, AData key_data, AThreadId, AMillis lease_time, ARefId ref_id]
      in invoke_on_key self1 request key_data))"

definition Map_put ::
  "proxy \<Rightarrow> pyobj \<Rightarrow> pyobj \<Rightarrow> pyobj \<Rightarrow> pyobj \<Rightarrow> future outcome" where
  "Map_put self key value ttl max_idle =
     (raising (check_not_none key ''key can't be None'') self
     (raising (check_not_none value ''value can't be None'') self
     (let key_data = to_data self key;
          value_data = to_data self value
      in self_put_internal self key_data value_data ttl max_idle)))"

definition Map_put_if_absent ::
  "proxy \<Rightarrow> pyobj \<Rightarrow> pyobj \<Rightarrow> pyobj \<Rightarrow> pyobj \<Rightarrow> future outcome" where
  "Map_put_if_absent self key value ttl max_idle =
     (raising (check_not_none key ''key can't be None'') self
     (raising (check_not_none value ''value can't be None'') self
     (let key_data = to_data self key;
          value_data = to_data self value
      in self_put_if_absent_internal self key_data value_data ttl max_idle)))"

definition Map_put_transient ::
  "proxy \<Rightarrow> pyobj \<Rightarrow> pyobj \<Rightarrow> pyobj \<Rightarrow> pyobj \<Rightarrow> future outcome" where
  "Map_put_transient self key value ttl max_idle =
     (raising (check_not_none key ''key can't be None'') self
     (raising (check_not_none value ''value can't be None'') self
     (let key_data = to_data self key;
          value_data = to_data self value
      in self_put_transient_internal self key_data value_data ttl max_idle)))"

definition Map_remove ::
  "proxy \<Rightarrow> pyobj \<Rightarrow> future outcome" where
  "Map_remove self key =
     (raising (check_not_none key ''key can't be None'') self
     (let key_data = to_data self key
      in self_remove_internal self key_data))"

definition Map_remove_if_same ::
  "proxy \<Rightarrow> pyobj \<Rightarrow> pyobj \<Rightarrow> future outcome" where
  "Map_remove_if_same self key value =
     (raising (check_not_none key ''key can't be None'') self
     (raising (check_not_none value ''value can't be None'') self
     (let key_data = to_data self key;
          value_data = to_data self value
      in self_remove_if_same_internal self key_data value_data)))"

definition Map_replace ::
  "proxy \<Rightarrow> pyobj \<Rightarrow> pyobj \<Rightarrow> future outcome" where
  "Map_replace self key value =
     (raising (check_not_none key ''key can't be None'') self
     (raising (check_not_none value ''value can't be None'') self
     (let key_data = to_data self key;
          value_data = to_data self value
      in self_replace_internal self key_data value_data)))"

definition Map_replace_if_same ::
  "proxy \<Rightarrow> pyobj \<Rightarrow> pyobj \<Rightarrow> pyobj \<Rightarrow> future outcome" where
  "Map_replace_if_same self key old_value new_value =
     (raising (check_not_none key ''key can't be None'') self
     (raising (check_not_none old_value ''old_value can't be None'') self
     (raising (check_not_none new_value ''new_value can't be None'') self
     (let key_data = to_data self key;
          old_value_data = to_data self old_value;
          new_value_data = to_data self new_value
      in self_replace_if_same_internal self key_data old_value_data new_value_data))))"

definition Map_set ::
  "proxy \<Rightarrow> pyobj \<Rightarrow> pyobj \<Rightarrow> pyobj \<Rightarrow> pyobj \<Rightarrow> future outcome" where
  "Map_set self key value ttl max_idle =
     (raising (check_not_none key ''key can't be None'') self
     (raising (check_not_none value ''value can't be None'') self
     (let key_data = to_data self key;
          value_data = to_data self value
      in self_set_internal self key_data value_data ttl max_idle)))"

definition Map_set_ttl ::
  "proxy \<Rightarrow> pyobj \<Rightarrow> pyobj \<Rightarrow> future outcome" where
  "Map_set_ttl self key ttl =
     (raising (check_not_none key ''key can't be None'') self
     (raising (check_not_none ttl ''ttl can't be None'') self
     (let key_data = to_data self key
      in self_set_ttl_internal self key_data ttl)))"

definition Map_try_lock ::
  "proxy \<Rightarrow> pyobj \<Rightarrow> pyobj \<Rightarrow> pyobj \<Rightarrow> future outcome" where
  "Map_try_lock self key lease_time timeout =
     (raising (check_not_none key ''key can't be None'') self
     (let key_data = to_data self key;
          (ref_id, self1) = get_and_increment self;
          request = Request map_try_lock_codec
                      [AName, AData key_data, AThreadId, AMillis lease_time, AMillis timeout,
                       ARefId ref_id]
      in invoke_on_key self1 request key_data))"

definition Map_try_put ::
  "proxy \<Rightarrow> pyobj \<Rightarrow> pyobj \<Rightarrow> pyobj \<Rightarrow> future outcome" where
  "Map_try_put self key value timeout =
     (raising (check_not_none key ''key can't be None'') self
     (raising (check_not_none value ''value can't be None'') self
     (let key_data = to_data self key;
          value_data = to_data self value
      in self_try_put_internal self key_data value_data timeout)))"

definition Map_try_remove ::
  "proxy \<Rightarrow> pyobj \<Rightarrow> pyobj \<Rightarrow> future outcome" where
  "Map_try_remove self key timeout =
     (raising (check_not_none key ''key can't be None'') self
     (let key_data = to_data self key
      in self_try_remove_internal self key_data timeout))"

definition Map_unlock ::
  "proxy \<Rightarrow> pyobj \<Rightarrow> future outcome" where
  "Map_unlock self key =
     (raising (check_not_none key ''key can't be None'') self
     (let key_data = to_data self key;
          (ref_id, self1) = get_and_increment self;
          request = Request map_unlock_codec [AName, AData key_data, AThreadId, ARefId ref_id]
      in invoke_on_key self1 request key_data))"

definition Map_clear :: "proxy \<Rightarrow> future outcome" where
  "Map_clear self = (let request = Request map_clear_codec [AName] in invoke self request)"

definition Map_evict_all :: "proxy \<Rightarrow> future outcome" where
  "Map_evict_all self = (let request = Request map_evict_all_codec [AName] in invoke self request)"

definition Map_load_all :: "proxy \<Rightarrow> pyobj \<Rightarrow> bool \<Rightarrow> future outcome" where
  "Map_load_all self keys replace_existing_values =
     (if truthy keys then
        (case iterate keys of
           Inl e \<Rightarrow> (Inl e, self)
         | Inr ks \<Rightarrow>
             (let key_data_list = map (to_data self) ks
              in self_load_all_internal self key_data_list replace_existing_values))
      else
        (let request = Request map_load_all_codec [AName, ABool replace_existing_values]
         in invoke self request))"

subsection \<open>class MapFeatNearCache: the overridden public operations\<close>

definition MapFeatNearCache_clear :: "proxy \<Rightarrow> future outcome" where
  "MapFeatNearCache_clear self = Map_clear (clear_cache self)"

definition MapFeatNearCache_evict_all :: "proxy \<Rightarrow> future outcome" where
  "MapFeatNearCache_evict_all self = Map_evict_all (clear_cache self)"

definition MapFeatNearCache_load_all :: "proxy \<Rightarrow> pyobj \<Rightarrow> bool \<Rightarrow> future outcome" where
  "MapFeatNearCache_load_all self keys replace_existing_values =
     Map_load_all
       (if keys = PNone \<and> replace_existing_values then clear_cache self else self)
       keys replace_existing_values"

subsection \<open>Calls on a map proxy\<close>

text \<open>
  A call of one of the public operations, with its arguments, and the method of the
  object's class that runs it.
\<close>

datatype map_op =
    Contains_key pyobj
  | Contains_value pyobj
  | Delete pyobj
  | Evict pyobj
  | Execute_on_key pyobj pyobj
  | Force_unlock pyobj
  | Get pyobj
  | Get_entry_view pyobj
  | Is_locked pyobj
  | Lock pyobj pyobj
  | Put pyobj pyobj pyobj pyobj
  | Put_if_absent pyobj pyobj pyobj pyobj
  | Put_transient pyobj pyobj pyobj pyobj
  | Remove pyobj
  | Remove_if_same pyobj pyobj
  | Replace pyobj pyobj
  | Replace_if_same pyobj pyobj pyobj
  | Set pyobj pyobj pyobj pyobj
  | Set_ttl pyobj pyobj
  | Try_lock pyobj pyobj pyobj
  | Try_put pyobj pyobj pyobj
  | Try_remove pyobj pyobj
  | Unlock pyobj
  | Clear
  | Evict_all
  | Load_all pyobj bool

definition returning_future :: "future outcome \<Rightarrow> (pyobj + future) outcome" where
  "returning_future r = (case r of (Inl e, self') \<Rightarrow> (Inl e, self') | (Inr f, self') \<Rightarrow> (Inr (Inr f), self'))"

fun call :: "proxy \<Rightarrow> map_op \<Rightarrow> (pyobj + future) outcome" where
  "call self (Contains_key key) = Map_contains_key self key"
| "call self (Contains_value v) = returning_future (Map_contains_value self v)"
| "call self (Delete key) = returning_future (Map_delete self key)"
| "call self (Evict key) = returning_future (Map_evict self key)"
| "call self (Execute_on_key key entry_processor) =
     returning_future (Map_execute_on_key self key entry_processor)"
| "call self (Force_unlock key) = returning_future (Map_force_unlock self key)"
| "call self (Get key) = returning_future (Map_get self key)"
| "call self (Get_entry_view key) = returning_future (Map_get_entry_view self key)"
| "call self (Is_locked key) = returning_future (Map_is_locked self key)"
| "call self (Lock key lease_time) = returning_future (Map_lock self key lease_time)"
| "call self (Put key v ttl max_idle) = returning_future (Map_put self key v ttl max_idle)"
| "call self (Put_if_absent key v ttl max_idle) =
     returning_future (Map_put_if_absent self key v ttl max_idle)"
| "call self (Put_transient key v ttl max_idle) =
     returning_future (Map_put_transient self key v ttl max_idle)"
| "call self (Remove key) = returning_future (Map_remove self key)"
| "call self (Remove_if_same key v) = returning_future (Map_remove_if_same self key v)"
| "call self (Replace key v) = returning_future (Map_replace self key v)"
| "call self (Replace_if_same key old_value new_value) =
     returning_future (Map_replace_if_same self key old_value new_value)"
| "call self (Set key v ttl max_idle) = returning_future (Map_set self key v ttl max_idle)"
| "call self (Set_ttl key ttl) = returning_future (Map_set_ttl self key ttl)"
| "call self (Try_lock key lease_time timeout) =
     returning_future (Map_try_lock self key lease_time timeout)"
| "call self (Try_put key v timeout) = returning_future (Map_try_put self key v timeout)"
| "call self (Try_remove key timeout) = returning_future (Map_try_remove self key timeout)"
| "call self (Unlock key) = returning_future (Map_unlock self key)"
| "call self Clear =
     returning_future (case cls self of Map_class \<Rightarrow> Map_clear self
                        | MapFeatNearCache_class \<Rightarrow> MapFeatNearCache_clear self)"
| "call self Evict_all =
     returning_future (case cls self of Map_class \<Rightarrow> Map_evict_all self
                        | MapFeatNearCache_class \<Rightarrow> MapFeatNearCache_evict_all self)"
| "call self (Load_all keys replace_existing_values) =
     returning_future
       (case cls self of
          Map_class \<Rightarrow> Map_load_all self keys replace_existing_values
        | MapFeatNearCache_class \<Rightarrow> MapFeatNearCache_load_all self keys replace_existing_values)"

subsection \<open>Notions the statements about calls use\<close>

fun none_argument :: "map_op \<Rightarrow> bool" where
  \<comment> \<open>The call passes \<open>None\<close> as its key or as one of its values.\<close>
  "none_argument (Contains_key key) = (key = PNone)"
| "none_argument (Contains_value v) = (v = PNone)"
| "none_argument (Delete key) = (key = PNone)"
| "none_argument (Evict key) = (key = PNone)"
| "none_argument (Execute_on_key key entry_processor) = (key = PNone)"
| "none_argument (Force_unlock key) = (key = PNone)"
| "none_argument (Get key) = (key = PNone)"
| "none_argument (Get_entry_view key) = (key = PNone)"
| "none_argument (Is_locked key) = (key = PNone)"
| "none_argument (Lock key lease_time) = (key = PNone)"
| "none_argument (Put key v ttl max_idle) = (key = PNone \<or> v = PNone)"
| "none_argument (Put_if_absent key v ttl max_idle) = (key = PNone \<or> v = PNone)"
| "none_argument (Put_transient key v ttl max_idle) = (key = PNone \<or> v = PNone)"
| "none_argument (Remove key) = (key = PNone)"
| "none_argument (Remove_if_same key v) = (key = PNone \<or> v = PNone)"
| "none_argument (Replace key v) = (key = PNone \<or> v = PNone)"
| "none_argument (Replace_if_same key old_value new_value) =
     (key = PNone \<or> old_value = PNone \<or> new_value = PNone)"
| "none_argument (Set key v ttl max_idle) = (key = PNone \<or> v = PNone)"
| "none_argument (Set_ttl key ttl) = (key = PNone)"
| "none_argument (Try_lock key lease_time timeout) = (key = PNone)"
| "none_argument (Try_put key v timeout) = (key = PNone \<or> v = PNone)"
| "none_argument (Try_remove key timeout) = (key = PNone)"
| "none_argument (Unlock key) = (key = PNone)"
| "none_argument Clear = False"
| "none_argument Evict_all = False"
| "none_argument (Load_all keys replace_existing_values) = False"



definition map_wide_clearing :: "map_op \<Rightarrow> bool" where
  \<comment> \<open>\<open>clear()\<close>, \<open>evict_all()\<close>, and \<open>load_all()\<close> without keys that replaces the
      existing values.\<close>
  "map_wide_clearing c = (c = Clear \<or> c = Evict_all \<or> c = Load_all PNone True)"

subsection \<open>A small proxy to run the operations on\<close>

definition example_to_data :: "pyobj \<Rightarrow> data" where
  "example_to_data v = (case v of PInt n \<Rightarrow> Data [nat n] | _ \<Rightarrow> Data [])"

definition example_proxy :: proxy where
  \<comment> \<open>A near-cache-enabled map whose near cache holds the keys 2 and 3.\<close>
  "example_proxy =
     \<lparr>cls = MapFeatNearCache_class, to_data = example_to_data,
      near_cache = [Data [2] \<mapsto> PInt 20, Data [3] \<mapsto> PInt 30],
      reference_id = 0, trace = []\<rparr>"

section \<open>The blocking map (class BlockingMap)\<close>

text \<open>
  \<open>BlockingMap\<close> holds a wrapped map and, for every operation, calls the operation of the
  same name on it and waits for the future it returns. The wrapped object is any map
  proxy, so it is a parameter here: \<open>wrapped c s\<close> is what the call \<open>c\<close> on the wrapped
  map does in state \<open>s\<close> (an exception, or a future, and the state after), and
  \<open>result f s\<close> is what \<open>f.result()\<close> does (the value the future resolves to, or the
  exception it raises, and the state after the wait).
\<close>

datatype api_call =
    Wrapped_add_entry_listener pyobj pyobj pyobj pyobj pyobj pyobj pyobj pyobj pyobj pyobj pyobj pyobj
  | Wrapped_add_index pyobj pyobj pyobj pyobj
  | Wrapped_add_interceptor pyobj
  | Wrapped_aggregate pyobj pyobj
  | Wrapped_clear
  | Wrapped_contains_key pyobj
  | Wrapped_contains_value pyobj
  | Wrapped_delete pyobj
  | Wrapped_entry_set pyobj
  | Wrapped_evict pyobj
  | Wrapped_evict_all
  | Wrapped_execute_on_entries pyobj pyobj
  | Wrapped_execute_on_key pyobj pyobj
  | Wrapped_execute_on_keys pyobj pyobj
  | Wrapped_flush
  | Wrapped_force_unlock pyobj
  | Wrapped_get pyobj
  | Wrapped_get_all pyobj
  | Wrapped_get_entry_view pyobj
  | Wrapped_is_empty
  | Wrapped_is_locked pyobj
  | Wrapped_key_set pyobj
  | Wrapped_load_all pyobj pyobj
  | Wrapped_lock pyobj pyobj
  | Wrapped_project pyobj pyobj
  | Wrapped_put pyobj pyobj pyobj pyobj
  | Wrapped_put_all pyobj
  | Wrapped_put_if_absent pyobj pyobj pyobj pyobj
  | Wrapped_put_transient pyobj pyobj pyobj pyobj
  | Wrapped_remove pyobj
  | Wrapped_remove_if_same pyobj pyobj
  | Wrapped_remove_entry_listener pyobj
  | Wrapped_remove_interceptor pyobj
  | Wrapped_replace pyobj pyobj
  | Wrapped_replace_if_same pyobj pyobj pyobj
  | Wrapped_set pyobj pyobj pyobj pyobj
  | Wrapped_set_ttl pyobj pyobj
  | Wrapped_size
  | Wrapped_try_lock pyobj pyobj pyobj
  | Wrapped_try_put pyobj pyobj pyobj
  | Wrapped_try_remove pyobj pyobj
  | Wrapped_unlock pyobj
  | Wrapped_values pyobj

type_synonym ('f, 's) wrapped_map = "api_call \<Rightarrow> 's \<Rightarrow> (py_error + 'f) \<times> 's"

type_synonym ('f, 's) future_result = "'f \<Rightarrow> 's \<Rightarrow> (py_error + pyobj) \<times> 's"

definition then_result ::
  "('f, 's) future_result \<Rightarrow> (py_error + 'f) \<times> 's \<Rightarrow> (py_error + pyobj) \<times> 's" where
  \<comment> \<open>\<open>.result()\<close> on what a call returned; an exception of the call itself propagates.\<close>
  "then_result result r = (case r of (Inl e, s') \<Rightarrow> (Inl e, s') | (Inr f, s') \<Rightarrow> result f s')"

definition BlockingMap_add_entry_listener ::
  "('f, 's) wrapped_map \<Rightarrow> ('f, 's) future_result \<Rightarrow> pyobj \<Rightarrow> pyobj \<Rightarrow> pyobj \<Rightarrow> pyobj \<Rightarrow> pyobj \<Rightarrow> pyobj \<Rightarrow> pyobj \<Rightarrow> pyobj \<Rightarrow> pyobj \<Rightarrow> pyobj \<Rightarrow> pyobj \<Rightarrow> pyobj \<Rightarrow> 's \<Rightarrow> (py_error + pyobj) \<times> 's" where
  "BlockingMap_add_entry_listener wrapped result include_value key predicate added_func removed_func updated_func evicted_func evict_all_func clear_all_func merged_func expired_func loaded_func s =
     then_result result (wrapped (Wrapped_add_entry_listener include_value key predicate added_func removed_func updated_func evicted_func evict_all_func clear_all_func merged_func expired_func loaded_func) s)"

definition BlockingMap_add_index ::
  "('f, 's) wrapped_map \<Rightarrow> ('f, 's) future_result \<Rightarrow> pyobj \<Rightarrow> pyobj \<Rightarrow> pyobj \<Rightarrow> pyobj \<Rightarrow> 's \<Rightarrow> (py_error + pyobj) \<times> 's" where
  "BlockingMap_add_index wrapped result attributes index_type name bitmap_index_options s =
     then_result result (wrapped (Wrapped_add_index attributes index_type name bitmap_index_options) s)"

definition BlockingMap_add_interceptor ::
  "('f, 's) wrapped_map \<Rightarrow> ('f, 's) future_result \<Rightarrow> pyobj \<Rightarrow> 's \<Rightarrow> (py_error + pyobj) \<times> 's" where
  "BlockingMap_add_interceptor wrapped result interceptor s =
     then_result result (wrapped (Wrapped_add_interceptor interceptor) s)"

definition BlockingMap_aggregate ::
  "('f, 's) wrapped_map \<Rightarrow> ('f, 's) future_result \<Rightarrow> pyobj \<Rightarrow> pyobj \<Rightarrow> 's \<Rightarrow> (py_error + pyobj) \<times> 's" where
  "BlockingMap_aggregate wrapped result aggregator predicate s =
     then_result result (wrapped (Wrapped_aggregate aggregator predicate) s)"

definition BlockingMap_clear ::
  "('f, 's) wrapped_map \<Rightarrow> ('f, 's) future_result \<Rightarrow> 's \<Rightarrow> (py_error + pyobj) \<times> 's" where
  "BlockingMap_clear wrapped result s =
     then_result result (wrapped Wrapped_clear s)"

definition BlockingMap_contains_key ::
  "('f, 's) wrapped_map \<Rightarrow> ('f, 's) future_result \<Rightarrow> pyobj \<Rightarrow> 's \<Rightarrow> (py_error + pyobj) \<times> 's" where
  "BlockingMap_contains_key wrapped result key s =
     then_result result (wrapped (Wrapped_contains_key key) s)"

definition BlockingMap_contains_value ::
  "('f, 's) wrapped_map \<Rightarrow> ('f, 's) future_result \<Rightarrow> pyobj \<Rightarrow> 's \<Rightarrow> (py_error + pyobj) \<times> 's" where
  "BlockingMap_contains_value wrapped result value s =
     then_result result (wrapped (Wrapped_contains_value value) s)"

definition BlockingMap_delete ::
  "('f, 's) wrapped_map \<Rightarrow> ('f, 's) future_result \<Rightarrow> pyobj \<Rightarrow> 's \<Rightarrow> (py_error + pyobj) \<times> 's" where
  "BlockingMap_delete wrapped result key s =
     then_result result (wrapped (Wrapped_delete key) s)"

definition BlockingMap_entry_set ::
  "('f, 's) wrapped_map \<Rightarrow> ('f, 's) future_result \<Rightarrow> pyobj \<Rightarrow> 's \<Rightarrow> (py_error + pyobj) \<times> 's" where
  "BlockingMap_entry_set wrapped result predicate s =
     then_result result (wrapped (Wrapped_entry_set predicate) s)"

definition BlockingMap_evict ::
  "('f, 's) wrapped_map \<Rightarrow> ('f, 's) future_result \<Rightarrow> pyobj \<Rightarrow> 's \<Rightarrow> (py_error + pyobj) \<times> 's" where
  "BlockingMap_evict wrapped result key s =
     then_result result (wrapped (Wrapped_evict key) s)"

definition BlockingMap_evict_all ::
  "('f, 's) wrapped_map \<Rightarrow> ('f, 's) future_result \<Rightarrow> 's \<Rightarrow> (py_error + pyobj) \<times> 's" where
  "BlockingMap_evict_all wrapped result s =
     then_result result (wrapped Wrapped_evict_all s)"

definition BlockingMap_execute_on_entries ::
  "('f, 's) wrapped_map \<Rightarrow> ('f, 's) future_result \<Rightarrow> pyobj \<Rightarrow> pyobj \<Rightarrow> 's \<Rightarrow> (py_error + pyobj) \<times> 's" where
  "BlockingMap_execute_on_entries wrapped result entry_processor predicate s =
     then_result result (wrapped (Wrapped_execute_on_entries entry_processor predicate) s)"

definition BlockingMap_execute_on_key ::
  "('f, 's) wrapped_map \<Rightarrow> ('f, 's) future_result \<Rightarrow> pyobj \<Rightarrow> pyobj \<Rightarrow> 's \<Rightarrow> (py_error + pyobj) \<times> 's" where
  "BlockingMap_execute_on_key wrapped result key entry_processor s =
     then_result result (wrapped (Wrapped_execute_on_key key entry_processor) s)"

definition BlockingMap_execute_on_keys ::
  "('f, 's) wrapped_map \<Rightarrow> ('f, 's) future_result \<Rightarrow> pyobj \<Rightarrow> pyobj \<Rightarrow> 's \<Rightarrow> (py_error + pyobj) \<times> 's" where
  "BlockingMap_execute_on_keys wrapped result keys entry_processor s =
     then_result result (wrapped (Wrapped_execute_on_keys keys entry_processor) s)"

definition BlockingMap_flush ::
  "('f, 's) wrapped_map \<Rightarrow> ('f, 's) future_result \<Rightarrow> 's \<Rightarrow> (py_error + pyobj) \<times> 's" where
  "BlockingMap_flush wrapped result s =
     then_result result (wrapped Wrapped_flush s)"

definition BlockingMap_force_unlock ::
  "('f, 's) wrapped_map \<Rightarrow> ('f, 's) future_result \<Rightarrow> pyobj \<Rightarrow> 's \<Rightarrow> (py_error + pyobj) \<times> 's" where
  "BlockingMap_force_unlock wrapped result key s =
     then_result result (wrapped (Wrapped_force_unlock key) s)"

definition BlockingMap_get ::
  "('f, 's) wrapped_map \<Rightarrow> ('f, 's) future_result \<Rightarrow> pyobj \<Rightarrow> 's \<Rightarrow> (py_error + pyobj) \<times> 's" where
  "BlockingMap_get wrapped result key s =
     then_result result (wrapped (Wrapped_get key) s)"

definition BlockingMap_get_all ::
  "('f, 's) wrapped_map \<Rightarrow> ('f, 's) future_result \<Rightarrow> pyobj \<Rightarrow> 's \<Rightarrow> (py_error + pyobj) \<times> 's" where
  "BlockingMap_get_all wrapped result keys s =
     then_result result (wrapped (Wrapped_get_all keys) s)"

definition BlockingMap_get_entry_view ::
  "('f, 's) wrapped_map \<Rightarrow> ('f, 's) future_result \<Rightarrow> pyobj \<Rightarrow> 's \<Rightarrow> (py_error + pyobj) \<times> 's" where
  "BlockingMap_get_entry_view wrapped result key s =
     then_result result (wrapped (Wrapped_get_entry_view key) s)"

definition BlockingMap_is_empty ::
  "('f, 's) wrapped_map \<Rightarrow> ('f, 's) future_result \<Rightarrow> 's \<Rightarrow> (py_error + pyobj) \<times> 's" where
  "BlockingMap_is_empty wrapped result s =
     then_result result (wrapped Wrapped_is_empty s)"

definition BlockingMap_is_locked ::
  "('f, 's) wrapped_map \<Rightarrow> ('f, 's) future_result \<Rightarrow> pyobj \<Rightarrow> 's \<Rightarrow> (py_error + pyobj) \<times> 's" where
  "BlockingMap_is_locked wrapped result key s =
     then_result result (wrapped (Wrapped_is_locked key) s)"

definition BlockingMap_key_set ::
  "('f, 's) wrapped_map \<Rightarrow> ('f, 's) future_result \<Rightarrow> pyobj \<Rightarrow> 's \<Rightarrow> (py_error + pyobj) \<times> 's" where
  "BlockingMap_key_set wrapped result predicate s =
     then_result result (wrapped (Wrapped_key_set predicate) s)"

definition BlockingMap_load_all ::
  "('f, 's) wrapped_map \<Rightarrow> ('f, 's) future_result \<Rightarrow> pyobj \<Rightarrow> pyobj \<Rightarrow> 's \<Rightarrow> (py_error + pyobj) \<times> 's" where
  "BlockingMap_load_all wrapped result keys replace_existing_values s =
     then_result result (wrapped (Wrapped_load_all keys replace_existing_values) s)"

definition BlockingMap_lock ::
  "('f, 's) wrapped_map \<Rightarrow> ('f, 's) future_result \<Rightarrow> pyobj \<Rightarrow> pyobj \<Rightarrow> 's \<Rightarrow> (py_error + pyobj) \<times> 's" where
  "BlockingMap_lock wrapped result key lease_time s =
     then_result result (wrapped (Wrapped_lock key lease_time) s)"

definition BlockingMap_project ::
  "('f, 's) wrapped_map \<Rightarrow> ('f, 's) future_result \<Rightarrow> pyobj \<Rightarrow> pyobj \<Rightarrow> 's \<Rightarrow> (py_error + pyobj) \<times> 's" where
  "BlockingMap_project wrapped result projection predicate s =
     then_result result (wrapped (Wrapped_project projection predicate) s)"

definition BlockingMap_put ::
  "('f, 's) wrapped_map \<Rightarrow> ('f, 's) future_result \<Rightarrow> pyobj \<Rightarrow> pyobj \<Rightarrow> pyobj \<Rightarrow> pyobj \<Rightarrow> 's \<Rightarrow> (py_error + pyobj) \<times> 's" where
  "BlockingMap_put wrapped result key value ttl max_idle s =
     then_result result (wrapped (Wrapped_put key value ttl max_idle) s)"

definition BlockingMap_put_all ::
  "('f, 's) wrapped_map \<Rightarrow> ('f, 's) future_result \<Rightarrow> pyobj \<Rightarrow> 's \<Rightarrow> (py_error + pyobj) \<times> 's" where
  "BlockingMap_put_all wrapped result map0 s =
     then_result result (wrapped (Wrapped_put_all map0) s)"

definition BlockingMap_put_if_absent ::
  "('f, 's) wrapped_map \<Rightarrow> ('f, 's) future_result \<Rightarrow> pyobj \<Rightarrow> pyobj \<Rightarrow> pyobj \<Rightarrow> pyobj \<Rightarrow> 's \<Rightarrow> (py_error + pyobj) \<times> 's" where
  "BlockingMap_put_if_absent wrapped result key value ttl max_idle s =
     then_result result (wrapped (Wrapped_put_if_absent key value ttl max_idle) s)"

definition BlockingMap_put_transient ::
  "('f, 's) wrapped_map \<Rightarrow> ('f, 's) future_result \<Rightarrow> pyobj \<Rightarrow> pyobj \<Rightarrow> pyobj \<Rightarrow> pyobj \<Rightarrow> 's \<Rightarrow> (py_error + pyobj) \<times> 's" where
  "BlockingMap_put_transient wrapped result key value ttl max_idle s =
     then_result result (wrapped (Wrapped_put_transient key value ttl max_idle) s)"

definition BlockingMap_remove ::
  "('f, 's) wrapped_map \<Rightarrow> ('f, 's) future_result \<Rightarrow> pyobj \<Rightarrow> 's \<Rightarrow> (py_error + pyobj) \<times> 's" where
  "BlockingMap_remove wrapped result key s =
     then_result result (wrapped (Wrapped_remove key) s)"

definition BlockingMap_remove_if_same ::
  "('f, 's) wrapped_map \<Rightarrow> ('f, 's) future_result \<Rightarrow> pyobj \<Rightarrow> pyobj \<Rightarrow> 's \<Rightarrow> (py_error + pyobj) \<times> 's" where
  "BlockingMap_remove_if_same wrapped result key value s =
     then_result result (wrapped (Wrapped_remove_if_same key value) s)"

definition BlockingMap_remove_entry_listener ::
  "('f, 's) wrapped_map \<Rightarrow> ('f, 's) future_result \<Rightarrow> pyobj \<Rightarrow> 's \<Rightarrow> (py_error + pyobj) \<times> 's" where
  "BlockingMap_remove_entry_listener wrapped result registration_id s =
     then_result result (wrapped (Wrapped_remove_entry_listener registration_id) s)"

definition BlockingMap_remove_interceptor ::
  "('f, 's) wrapped_map \<Rightarrow> ('f, 's) future_result \<Rightarrow> pyobj \<Rightarrow> 's \<Rightarrow> (py_error + pyobj) \<times> 's" where
  "BlockingMap_remove_interceptor wrapped result registration_id s =
     then_result result (wrapped (Wrapped_remove_interceptor registration_id) s)"

definition BlockingMap_replace ::
  "('f, 's) wrapped_map \<Rightarrow> ('f, 's) future_result \<Rightarrow> pyobj \<Rightarrow> pyobj \<Rightarrow> 's \<Rightarrow> (py_error + pyobj) \<times> 's" where
  "BlockingMap_replace wrapped result key value s =
     then_result result (wrapped (Wrapped_replace key value) s)"

definition BlockingMap_replace_if_same ::
  "('f, 's) wrapped_map \<Rightarrow> ('f, 's) future_result \<Rightarrow> pyobj \<Rightarrow> pyobj \<Rightarrow> pyobj \<Rightarrow> 's \<Rightarrow> (py_error + pyobj) \<times> 's" where
  "BlockingMap_replace_if_same wrapped result key old_value new_value s =
     then_result result (wrapped (Wrapped_replace_if_same key old_value new_value) s)"

definition BlockingMap_set ::
  "('f, 's) wrapped_map \<Rightarrow> ('f, 's) future_result \<Rightarrow> pyobj \<Rightarrow> pyobj \<Rightarrow> pyobj \<Rightarrow> pyobj \<Rightarrow> 's \<Rightarrow> (py_error + pyobj) \<times> 's" where
  "BlockingMap_set wrapped result key value ttl max_idle s =
     then_result result (wrapped (Wrapped_set key value ttl max_idle) s)"

definition BlockingMap_set_ttl ::
  "('f, 's) wrapped_map \<Rightarrow> ('f, 's) future_result \<Rightarrow> pyobj \<Rightarrow> pyobj \<Rightarrow> 's \<Rightarrow> (py_error + pyobj) \<times> 's" where
  "BlockingMap_set_ttl wrapped result key ttl s =
     then_result result (wrapped (Wrapped_set_ttl key ttl) s)"

definition BlockingMap_size ::
  "('f, 's) wrapped_map \<Rightarrow> ('f, 's) future_result \<Rightarrow> 's \<Rightarrow> (py_error + pyobj) \<times> 's" where
  "BlockingMap_size wrapped result s =
     then_result result (wrapped Wrapped_size s)"

definition BlockingMap_try_lock ::
  "('f, 's) wrapped_map \<Rightarrow> ('f, 's) future_result \<Rightarrow> pyobj \<Rightarrow> pyobj \<Rightarrow> pyobj \<Rightarrow> 's \<Rightarrow> (py_error + pyobj) \<times> 's" where
  "BlockingMap_try_lock wrapped result key lease_time timeout s =
     then_result result (wrapped (Wrapped_try_lock key lease_time timeout) s)"

definition BlockingMap_try_put ::
  "('f, 's) wrapped_map \<Rightarrow> ('f, 's) future_result \<Rightarrow> pyobj \<Rightarrow> pyobj \<Rightarrow> pyobj \<Rightarrow> 's \<Rightarrow> (py_error + pyobj) \<times> 's" where
  "BlockingMap_try_put wrapped result key value timeout s =
     then_result result (wrapped (Wrapped_try_put key value timeout) s)"

definition BlockingMap_try_remove ::
  "('f, 's) wrapped_map \<Rightarrow> ('f, 's) future_result \<Rightarrow> pyobj \<Rightarrow> pyobj \<Rightarrow> 's \<Rightarrow> (py_error + pyobj) \<times> 's" where
  "BlockingMap_try_remove wrapped result key timeout s =
     then_result result (wrapped (Wrapped_try_remove key timeout) s)"

definition BlockingMap_unlock ::
  "('f, 's) wrapped_map \<Rightarrow> ('f, 's) future_result \<Rightarrow> pyobj \<Rightarrow> 's \<Rightarrow> (py_error + pyobj) \<times> 's" where
  "BlockingMap_unlock wrapped result key s =
     then_result result (wrapped (Wrapped_unlock key) s)"

definition BlockingMap_values ::
  "('f, 's) wrapped_map \<Rightarrow> ('f, 's) future_result \<Rightarrow> pyobj \<Rightarrow> 's \<Rightarrow> (py_error + pyobj) \<times> 's" where
  "BlockingMap_values wrapped result predicate s =
     then_result result (wrapped (Wrapped_values predicate) s)"

text \<open>The method of \<open>BlockingMap\<close> that a call of an operation with its arguments runs.\<close>

fun BlockingMap_call ::
  "('f, 's) wrapped_map \<Rightarrow> ('f, 's) future_result \<Rightarrow> api_call \<Rightarrow> 's \<Rightarrow> (py_error + pyobj) \<times> 's" where
  "BlockingMap_call wrapped result (Wrapped_add_entry_listener include_value key predicate added_func removed_func updated_func evicted_func evict_all_func clear_all_func merged_func expired_func loaded_func) s =
     BlockingMap_add_entry_listener wrapped result include_value key predicate added_func removed_func updated_func evicted_func evict_all_func clear_all_func merged_func expired_func loaded_func s"
| "BlockingMap_call wrapped result (Wrapped_add_index attributes index_type name bitmap_index_options) s =
     BlockingMap_add_index wrapped result attributes index_type name bitmap_index_options s"
| "BlockingMap_call wrapped result (Wrapped_add_interceptor interceptor) s =
     BlockingMap_add_interceptor wrapped result interceptor s"
| "BlockingMap_call wrapped result (Wrapped_aggregate aggregator predicate) s =
     BlockingMap_aggregate wrapped result aggregator predicate s"
| "BlockingMap_call wrapped result Wrapped_clear s =
     BlockingMap_clear wrapped result s"
| "BlockingMap_call wrapped result (Wrapped_contains_key key) s =
     BlockingMap_contains_key wrapped result key s"
| "BlockingMap_call wrapped result (Wrapped_contains_value value) s =
     BlockingMap_contains_value wrapped result value s"
| "BlockingMap_call wrapped result (Wrapped_delete key) s =
     BlockingMap_delete wrapped result key s"
| "BlockingMap_call wrapped result (Wrapped_entry_set predicate) s =
     BlockingMap_entry_set wrapped result predicate s"
| "BlockingMap_call wrapped result (Wrapped_evict key) s =
     BlockingMap_evict wrapped result key s"
| "BlockingMap_call wrapped result Wrapped_evict_all s =
     BlockingMap_evict_all wrapped result s"
| "BlockingMap_call wrapped result (Wrapped_execute_on_entries entry_processor predicate) s =
     BlockingMap_execute_on_entries wrapped result entry_processor predicate s"
| "BlockingMap_call wrapped result (Wrapped_execute_on_key key entry_processor) s =
     BlockingMap_execute_on_key wrapped result key entry_processor s"
| "BlockingMap_call wrapped result (Wrapped_execute_on_keys keys entry_processor) s =
     BlockingMap_execute_on_keys wrapped result keys entry_processor s"
| "BlockingMap_call wrapped result Wrapped_flush s =
     BlockingMap_flush wrapped result s"
| "BlockingMap_call wrapped result (Wrapped_force_unlock key) s =
     BlockingMap_force_unlock wrapped result key s"
| "BlockingMap_call wrapped result (Wrapped_get key) s =
     BlockingMap_get wrapped result key s"
| "BlockingMap_call wrapped result (Wrapped_get_all keys) s =
     BlockingMap_get_all wrapped result keys s"
| "BlockingMap_call wrapped result (Wrapped_get_entry_view key) s =
     BlockingMap_get_entry_view wrapped result key s"
| "BlockingMap_call wrapped result Wrapped_is_empty s =
     BlockingMap_is_empty wrapped result s"
| "BlockingMap_call wrapped result (Wrapped_is_locked key) s =
     BlockingMap_is_locked wrapped result key s"
| "BlockingMap_call wrapped result (Wrapped_key_set predicate) s =
     BlockingMap_key_set wrapped result predicate s"
| "BlockingMap_call wrapped result (Wrapped_load_all keys replace_existing_values) s =
     BlockingMap_load_all wrapped result keys replace_existing_values s"
| "BlockingMap_call wrapped result (Wrapped_lock key lease_time) s =
     BlockingMap_lock wrapped result key lease_time s"
| "BlockingMap_call wrapped result (Wrapped_project projection predicate) s =
     BlockingMap_project wrapped result projection predicate s"
| "BlockingMap_call wrapped result (Wrapped_put key value ttl max_idle) s =
     BlockingMap_put wrapped result key value ttl max_idle s"
| "BlockingMap_call wrapped result (Wrapped_put_all map0) s =
     BlockingMap_put_all wrapped result map0 s"
| "BlockingMap_call wrapped result (Wrapped_put_if_absent key value ttl max_idle) s =
     BlockingMap_put_if_absent wrapped result key value ttl max_idle s"
| "BlockingMap_call wrapped result (Wrapped_put_transient key value ttl max_idle) s =
     BlockingMap_put_transient wrapped result key value ttl max_idle s"
| "BlockingMap_call wrapped result (Wrapped_remove key) s =
     BlockingMap_remove wrapped result key s"
| "BlockingMap_call wrapped result (Wrapped_remove_if_same key value) s =
     BlockingMap_remove_if_same wrapped result key value s"
| "BlockingMap_call wrapped result (Wrapped_remove_entry_listener registration_id) s =
     BlockingMap_remove_entry_listener wrapped result registration_id s"
| "BlockingMap_call wrapped result (Wrapped_remove_interceptor registration_id) s =
     BlockingMap_remove_interceptor wrapped result registration_id s"
| "BlockingMap_call wrapped result (Wrapped_replace key value) s =
     BlockingMap_replace wrapped result key value s"
| "BlockingMap_call wrapped result (Wrapped_replace_if_same key old_value new_value) s =
     BlockingMap_replace_if_same wrapped result key old_value new_value s"
| "BlockingMap_call wrapped result (Wrapped_set key value ttl max_idle) s =
     BlockingMap_set wrapped result key value ttl max_idle s"
| "BlockingMap_call wrapped result (Wrapped_set_ttl key ttl) s =
     BlockingMap_set_ttl wrapped result key ttl s"
| "BlockingMap_call wrapped result Wrapped_size s =
     BlockingMap_size wrapped result s"
| "BlockingMap_call wrapped result (Wrapped_try_lock key lease_time timeout) s =
     BlockingMap_try_lock wrapped result key lease_time timeout s"
| "BlockingMap_call wrapped result (Wrapped_try_put key value timeout) s =
     BlockingMap_try_put wrapped result key value timeout s"
| "BlockingMap_call wrapped result (Wrapped_try_remove key timeout) s =
     BlockingMap_try_remove wrapped result key timeout s"
| "BlockingMap_call wrapped result (Wrapped_unlock key) s =
     BlockingMap_unlock wrapped result key s"
| "BlockingMap_call wrapped result (Wrapped_values predicate) s =
     BlockingMap_values wrapped result predicate s"

definition blocking_spec ::
  "('f, 's) wrapped_map \<Rightarrow> ('f, 's) future_result \<Rightarrow> api_call \<Rightarrow> 's \<Rightarrow> (py_error + pyobj) \<times> 's" where
  \<comment> \<open>The spec's words: the same operation with the same arguments on the wrapped
      asynchronous map, then the wait on its future, \<open>wrapped.op(args).result()\<close>.\<close>
  "blocking_spec wrapped result c s =
     (case wrapped c s of
        (Inl e, s') \<Rightarrow> (Inl e, s')
      | (Inr f, s') \<Rightarrow> result f s')"


section \<open>Frames and inbound messages\<close>

text \<open>
  Modelled from the spec: the message classes (hazelcast/protocol/client_message.py) and
  the built-in codecs (hazelcast/protocol/builtin.py) are not among the sources; only
  their tests are. A frame is a byte payload and a flag bitset. The masks of the begin and
  end flags are those of the test (\<open>1 << 12\<close>, \<open>1 << 11\<close>); the masks of the null and
  final flags are the neighbouring bits. A flag is set when all bits of its mask are.
\<close>

type_synonym byte = "8 word"

datatype frame = Frame (buf: "byte list") (flags: "16 word")

definition IS_FINAL_FLAG :: "16 word" where "IS_FINAL_FLAG = push_bit 13 1"

definition BEGIN_DATA_STRUCTURE_FLAG :: "16 word" where "BEGIN_DATA_STRUCTURE_FLAG = push_bit 12 1"

definition END_DATA_STRUCTURE_FLAG :: "16 word" where "END_DATA_STRUCTURE_FLAG = push_bit 11 1"

definition IS_NULL_FLAG :: "16 word" where "IS_NULL_FLAG = push_bit 10 1"

definition is_flag_set :: "16 word \<Rightarrow> 16 word \<Rightarrow> bool" where
  "is_flag_set fl flag = (fl AND flag = flag)"

definition is_begin_frame :: "frame \<Rightarrow> bool" where
  "is_begin_frame f = is_flag_set (flags f) BEGIN_DATA_STRUCTURE_FLAG"

definition is_end_frame :: "frame \<Rightarrow> bool" where
  "is_end_frame f = is_flag_set (flags f) END_DATA_STRUCTURE_FLAG"

definition is_null_frame :: "frame \<Rightarrow> bool" where
  "is_null_frame f = is_flag_set (flags f) IS_NULL_FLAG"

definition is_final_frame :: "frame \<Rightarrow> bool" where
  "is_final_frame f = is_flag_set (flags f) IS_FINAL_FLAG"

definition BEGIN_FRAME :: frame where "BEGIN_FRAME = Frame [] BEGIN_DATA_STRUCTURE_FLAG"

definition END_FRAME :: frame where "END_FRAME = Frame [] END_DATA_STRUCTURE_FLAG"

definition NULL_FRAME :: frame where "NULL_FRAME = Frame [] IS_NULL_FLAG"

text \<open>
  Modelled from the spec: an inbound message is a forward-only cursor over its frames. It
  is given by the frames from the cursor on; \<open>next_frame\<close> returns the frame under the
  cursor and advances, and fails when no frame is left.
\<close>

type_synonym inbound_message = "frame list"

definition next_frame :: "inbound_message \<Rightarrow> (frame \<times> inbound_message) option" where
  "next_frame msg = (case msg of [] \<Rightarrow> None | f # rest \<Rightarrow> Some (f, rest))"

definition has_next_frame :: "inbound_message \<Rightarrow> bool" where
  "has_next_frame msg = (msg \<noteq> [])"

text \<open>
  Modelled from the spec: fast-forwarding keeps a counter of the end frames it still
  expects, starting at one for the structure whose begin frame has been read; each frame
  read is an end frame (one expected end less), a begin frame (one more), or a frame to
  pass over. It stops when no end frame is expected any more. A message that ends before
  that is corrupt.
\<close>

fun fast_forward :: "nat \<Rightarrow> inbound_message \<Rightarrow> inbound_message option" where
  "fast_forward 0 msg = Some msg"
| "fast_forward (Suc n) [] = None"
| "fast_forward (Suc n) (f # msg) =
     (if is_end_frame f then fast_forward n msg
      else if is_begin_frame f then fast_forward (Suc (Suc n)) msg
      else fast_forward (Suc n) msg)"

definition fast_forward_to_end_frame :: "inbound_message \<Rightarrow> inbound_message option" where
  "fast_forward_to_end_frame msg = fast_forward 1 msg"

text \<open>
  The spec's flattened tree: a composite value is a begin frame, the frames of its
  members, and an end frame.
\<close>

datatype item = Leaf frame | Struct frame "item list" frame

fun flatten :: "item \<Rightarrow> frame list" where
  "flatten (Leaf f) = [f]"
| "flatten (Struct b members e) = b # concat (map flatten members) @ [e]"

fun well_bracketed :: "item \<Rightarrow> bool" where
  "well_bracketed (Leaf f) = (\<not> is_begin_frame f \<and> \<not> is_end_frame f)"
| "well_bracketed (Struct b members e) =
     (is_begin_frame b \<and> \<not> is_end_frame b \<and> is_end_frame e \<and> list_all well_bracketed members)"

section \<open>Properties of the address parser\<close>


























section \<open>Properties of the map proxy and its near cache\<close>

lemma invalidate_cache_batch_near_cache:
  "near_cache (invalidate_cache_batch self ks) = (\<lambda>k. if k \<in> set ks then None else near_cache self k)"
  by (induction ks arbitrary: self) (auto simp: invalidate_cache_def NearCache_invalidate_def)

lemma invalidate_cache_batch_trace:
  "trace (invalidate_cache_batch self ks) = trace self @ map NearCacheInvalidate ks"
  by (induction ks arbitrary: self) (auto simp: invalidate_cache_def)

lemma invalidate_cache_batch_rest:
  "cls (invalidate_cache_batch self ks) = cls self \<and>
   to_data (invalidate_cache_batch self ks) = to_data self \<and>
   reference_id (invalidate_cache_batch self ks) = reference_id self"
  by (induction ks arbitrary: self) (auto simp: invalidate_cache_def)

lemma handle_batch_is_batch:
  "handle_batch_invalidation self ks sus pus sqs = invalidate_cache_batch self ks"
  by (induction ks arbitrary: self) auto

text \<open>
  Claim C4. A single invalidation event with a null key empties the near cache. With a key,
  exactly that key is invalidated: the near cache afterwards is the one before with the
  key removed, every other entry kept, and the invalidation is applied (and recorded)
  whether or not the key was cached. A batched event invalidates each of its keys.
\<close>

theorem handle_invalidation_cases:
  "near_cache (handle_invalidation self None source_uuid partition_uuid sequence) = Map.empty
   \<and> near_cache (handle_invalidation self (Some k) source_uuid partition_uuid sequence)
       = (near_cache self)(k := None)
   \<and> trace (handle_invalidation self (Some k) source_uuid partition_uuid sequence)
       = trace self @ [NearCacheInvalidate k]
   \<and> near_cache (handle_batch_invalidation self keys source_uuids partition_uuids sequences)
       = (\<lambda>k. if k \<in> set keys then None else near_cache self k)
   \<and> trace (handle_batch_invalidation self keys source_uuids partition_uuids sequences)
       = trace self @ map NearCacheInvalidate keys"
  by (simp add: handle_invalidation_def clear_cache_def invalidate_cache_def
      NearCache_clear_def NearCache_invalidate_def handle_batch_is_batch
      invalidate_cache_batch_near_cache invalidate_cache_batch_trace)

lemma handle_event_set_sequences:
  "handle_event self (set_sequences f ev) = handle_event self ev"
  by (cases ev) (simp_all add: handle_invalidation_def handle_batch_is_batch)

lemma handle_events_set_sequences:
  "handle_events self (map (set_sequences f) evs) = handle_events self evs"
  unfolding handle_events_def
  by (induction evs arbitrary: self) (simp_all add: handle_event_set_sequences)

lemma handle_event_keys:
  "\<not> clears_all ev \<Longrightarrow>
   near_cache (handle_event self ev) = (\<lambda>k. if k \<in> set (event_keys ev) then None else near_cache self k)"
  by (cases ev)
     (auto simp: handle_invalidation_def invalidate_cache_def NearCache_invalidate_def
        handle_batch_is_batch invalidate_cache_batch_near_cache)

lemma handle_events_keys:
  "list_all (\<lambda>ev. \<not> clears_all ev) evs \<Longrightarrow>
   near_cache (handle_events self evs)
     = (\<lambda>k. if k \<in> set (concat (map event_keys evs)) then None else near_cache self k)"
  unfolding handle_events_def
proof (induction evs arbitrary: self)
  case Nil
  then show ?case by simp
next
  case (Cons ev evs)
  then have "near_cache (foldl handle_event (handle_event self ev) evs)
     = (\<lambda>k. if k \<in> set (concat (map event_keys evs)) then None
             else near_cache (handle_event self ev) k)"
    by simp
  with Cons.prems show ?case
    by (auto simp: handle_event_keys)
qed



lemmas public_defs =
  Map_contains_key_def Map_contains_value_def Map_delete_def Map_evict_def
  Map_execute_on_key_def Map_force_unlock_def Map_get_def Map_get_entry_view_def
  Map_is_locked_def Map_lock_def Map_put_def Map_put_if_absent_def Map_put_transient_def
  Map_remove_def Map_remove_if_same_def Map_replace_def Map_replace_if_same_def
  Map_set_def Map_set_ttl_def Map_try_lock_def Map_try_put_def Map_try_remove_def
  Map_unlock_def Map_clear_def Map_evict_all_def Map_load_all_def
  MapFeatNearCache_clear_def MapFeatNearCache_evict_all_def MapFeatNearCache_load_all_def

lemma raising_Some: "raising (Some e) self rest = (Inl e, self)"
  by (simp add: raising_def)

lemma raising_None: "raising None self rest = rest"
  by (simp add: raising_def)

lemma check_not_none_None: "check_not_none PNone m = Some (AssertionError m)"
  by (simp add: check_not_none_def)

lemma check_not_none_ok: "v \<noteq> PNone \<Longrightarrow> check_not_none v m = None"
  by (simp add: check_not_none_def)

lemma raising_check_cases:
  "raising (check_not_none v m) self rest = (if v = PNone then (Inl (AssertionError m), self) else rest)"
  by (simp add: raising_def check_not_none_def)

text \<open>
  Claim C9. A public operation called with \<open>None\<close> as its key or as one of its values
  raises \<open>AssertionError\<close>; the proxy is left as it was: no request has been handed to the
  invocation service (the trace is unchanged), the reference id generator and the near
  cache are untouched. This holds for the plain map and for the near-cache-enabled one.
\<close>

theorem none_argument_raises:
  "none_argument c \<Longrightarrow> \<exists>message. call self c = (Inl (AssertionError message), self)"
  by (cases c) (auto simp: public_defs raising_check_cases returning_future_def)

theorem none_argument_raises_witness:
  "none_argument (Put PNone (PInt 1) PNone PNone)
   \<and> (\<exists>message. call example_proxy (Put PNone (PInt 1) PNone PNone)
                    = (Inl (AssertionError message), example_proxy))"
  using none_argument_raises [of "Put PNone (PInt 1) PNone PNone" example_proxy]
  by simp

lemma invalidate_cache_fields:
  "cls (invalidate_cache self k) = cls self"
  "to_data (invalidate_cache self k) = to_data self"
  "reference_id (invalidate_cache self k) = reference_id self"
  "near_cache (invalidate_cache self k) = (near_cache self)(k := None)"
  "trace (invalidate_cache self k) = trace self @ [NearCacheInvalidate k]"
  by (simp_all add: invalidate_cache_def NearCache_invalidate_def)

lemma proxy_eqI:
  "cls a = cls b \<Longrightarrow> to_data a = to_data b \<Longrightarrow> near_cache a = near_cache b \<Longrightarrow>
   reference_id a = reference_id b \<Longrightarrow> trace a = trace b \<Longrightarrow> proxy.more a = proxy.more b \<Longrightarrow>
   a = b"
  by (cases a, cases b) simp






lemma clear_cache_eq:
  "clear_cache self = self\<lparr>near_cache := Map.empty, trace := trace self @ [NearCacheClear]\<rparr>"
  by (simp add: clear_cache_def NearCache_clear_def)

text \<open>
  Claim C6, as amended. On a near-cache-enabled map, \<open>clear()\<close>, \<open>evict_all()\<close> and
  \<open>load_all()\<close> called without keys and with \<open>replace_existing_values\<close> true clear the
  whole near cache and then issue the remote call. \<open>load_all()\<close> without keys and with
  \<open>replace_existing_values\<close> false issues the remote call and leaves the near cache as
  it was.
\<close>

theorem map_wide_operations_clear_first:
  "(cls self = MapFeatNearCache_class \<and> map_wide_clearing c \<longrightarrow>
      (\<exists>request.
         call self c =
           (Inr (Inr (InvocationFuture request)),
            self\<lparr>near_cache := Map.empty,
                 trace := trace self @ [NearCacheClear, Invoke request Anywhere]\<rparr>)))
   \<and> (cls self = MapFeatNearCache_class \<longrightarrow>
      call self (Load_all PNone False) =
        (Inr (Inr (InvocationFuture (Request map_load_all_codec [AName, ABool False]))),
         self\<lparr>trace := trace self
                  @ [Invoke (Request map_load_all_codec [AName, ABool False]) Anywhere]\<rparr>))"
  by (auto simp: map_wide_clearing_def public_defs returning_future_def invoke_def Let_def
        clear_cache_eq truthy_def)

theorem map_wide_operations_clear_first_witness:
  "cls example_proxy = MapFeatNearCache_class \<and> map_wide_clearing Evict_all
   \<and> (\<exists>request.
         call example_proxy Evict_all =
           (Inr (Inr (InvocationFuture request)),
            example_proxy\<lparr>near_cache := Map.empty,
                          trace := [NearCacheClear, Invoke request Anywhere]\<rparr>))
   \<and> near_cache (snd (call example_proxy (Load_all PNone False))) = near_cache example_proxy"
proof -
  have t: "trace example_proxy = []" and cl: "cls example_proxy = MapFeatNearCache_class"
    by (simp_all add: example_proxy_def)
  show ?thesis
    using map_wide_operations_clear_first [of example_proxy Evict_all]
    by (simp add: t cl map_wide_clearing_def)
qed

text \<open>
  Claim C6 as stated fails: \<open>load_all(None, False)\<close> on a near-cache-enabled map whose
  near cache holds the keys 2 and 3 issues the map-wide load and keeps both entries.
\<close>

theorem load_all_keeps_near_cache_counterexample:
  "cls example_proxy = MapFeatNearCache_class
   \<and> call example_proxy (Load_all PNone False) =
        (Inr (Inr (InvocationFuture (Request map_load_all_codec [AName, ABool False]))),
         example_proxy\<lparr>trace := [Invoke (Request map_load_all_codec [AName, ABool False]) Anywhere]\<rparr>)
   \<and> near_cache (snd (call example_proxy (Load_all PNone False))) (Data [2]) = Some (PInt 20)"
  by (simp add: example_proxy_def public_defs returning_future_def invoke_def Let_def truthy_def)

text \<open>
  Claim C5. \<open>get\<close> on a near-cache-enabled map, with a key that is not \<open>None\<close>: when
  the serialized key is in the near cache, the result is the cached value in an
  \<open>ImmediateFuture\<close> and nothing is invoked (the proxy is unchanged); when it is not, the
  \<open>map_get\<close> request is invoked on the key and the future returned continues the
  invocation's future with \<open>_update_cache\<close>. When the invocation succeeds with the
  decoded value \<open>r\<close>, that continuation stores \<open>r\<close> under the serialized key and the
  future resolves to \<open>r\<close>; when it fails, nothing is stored and the future fails with
  the same error.
\<close>

theorem near_cache_get:
  assumes "cls self = MapFeatNearCache_class" and "key \<noteq> PNone"
  shows "(near_cache self (to_data self key) = Some v \<longrightarrow>
            Map_get self key = (Inr (ImmediateFuture v), self))
       \<and> (near_cache self (to_data self key) = None \<longrightarrow>
            Map_get self key =
              (Inr (ContinueWith
                      (InvocationFuture (Request map_get_codec [AName, AData (to_data self key), AThreadId]))
                      (UpdateCache (to_data self key))),
               self\<lparr>trace := trace self
                        @ [Invoke (Request map_get_codec [AName, AData (to_data self key), AThreadId])
                             (OnKey (to_data self key))]\<rparr>))
       \<and> complete (ContinueWith (InvocationFuture request) (UpdateCache key_data)) (Inr r) self'
           = (Inr r, self'\<lparr>near_cache := (near_cache self')(key_data \<mapsto> r),
                           trace := trace self' @ [NearCacheStore key_data r]\<rparr>)
       \<and> complete (ContinueWith (InvocationFuture request) (UpdateCache key_data)) (Inl e) self'
           = (Inl e, self')"
  using assms
  by (simp add: Map_get_def raising_check_cases self_get_internal_def
      MapFeatNearCache_get_internal_def NearCache_getitem_def Map_get_internal_def
      invoke_on_key_def update_cache_def NearCache_setitem_def Let_def)

theorem near_cache_get_witness:
  "cls example_proxy = MapFeatNearCache_class \<and> PInt 2 \<noteq> PNone
   \<and> near_cache example_proxy (to_data example_proxy (PInt 2)) = Some (PInt 20)
   \<and> Map_get example_proxy (PInt 2) = (Inr (ImmediateFuture (PInt 20)), example_proxy)
   \<and> near_cache example_proxy (to_data example_proxy (PInt 5)) = None
   \<and> Map_get example_proxy (PInt 5) =
        (Inr (ContinueWith (InvocationFuture (Request map_get_codec [AName, AData (Data [5]), AThreadId]))
                (UpdateCache (Data [5]))),
         example_proxy\<lparr>trace := [Invoke (Request map_get_codec [AName, AData (Data [5]), AThreadId])
                                   (OnKey (Data [5]))]\<rparr>)"
proof -
  have td: "to_data example_proxy (PInt 2) = Data [2]" "to_data example_proxy (PInt 5) = Data [5]"
    by (simp_all add: example_proxy_def example_to_data_def)
  have nc: "near_cache example_proxy (Data [2]) = Some (PInt 20)"
           "near_cache example_proxy (Data [5]) = None"
    by (simp_all add: example_proxy_def)
  have t: "trace example_proxy = []" and cl: "cls example_proxy = MapFeatNearCache_class"
    by (simp_all add: example_proxy_def)
  show ?thesis
    using near_cache_get [of example_proxy "PInt 2" "PInt 20"]
          near_cache_get [of example_proxy "PInt 5"]
    by (simp add: td nc t cl)
qed

text \<open>
  Claim C1, as amended. The handlers do not look at sequence numbers: delivering the same
  events with any other sequence numbers (with or without a gap) leaves the proxy in the
  same state. When no single event carries a null key, what is invalidated is exactly the
  keys the events name, and every other entry stays cached.
\<close>

theorem invalidation_ignores_sequences:
  "handle_events self (map (set_sequences f) evs) = handle_events self evs
   \<and> (list_all (\<lambda>ev. \<not> clears_all ev) evs \<longrightarrow>
        near_cache (handle_events self evs)
          = (\<lambda>k. if k \<in> set (concat (map event_keys evs)) then None else near_cache self k))"
  using handle_events_set_sequences handle_events_keys by blast

theorem invalidation_ignores_sequences_witness:
  "list_all (\<lambda>ev. \<not> clears_all ev)
     [SingleInvalidation (Some (Data [2])) 0 0 1, SingleInvalidation (Some (Data [2])) 0 0 3]
   \<and> near_cache (handle_events example_proxy
         [SingleInvalidation (Some (Data [2])) 0 0 1, SingleInvalidation (Some (Data [2])) 0 0 3])
       = [Data [3] \<mapsto> PInt 30]"
proof -
  have nc: "(\<lambda>k. if k = Data [2] then None else near_cache example_proxy k)
              = [Data [3] \<mapsto> PInt 30]"
    by (auto simp: example_proxy_def fun_eq_iff)
  show ?thesis
    using invalidation_ignores_sequences
            [of example_proxy id
                "[SingleInvalidation (Some (Data [2])) 0 0 1, SingleInvalidation (Some (Data [2])) 0 0 3]"]
    by (simp add: nc)
qed

text \<open>
  Claim C1 as stated fails: two single-key events for key 2 with the sequence numbers 1 and
  3 (number 2 was missed) leave key 3 cached; the near cache was not cleared, only key 2
  was invalidated.
\<close>

theorem sequence_gap_counterexample:
  "has_gap (concat (map event_sequences
      [SingleInvalidation (Some (Data [2])) 0 0 1, SingleInvalidation (Some (Data [2])) 0 0 3]))
   \<and> cls example_proxy = MapFeatNearCache_class
   \<and> near_cache (handle_events example_proxy
         [SingleInvalidation (Some (Data [2])) 0 0 1, SingleInvalidation (Some (Data [2])) 0 0 3])
         (Data [3]) = Some (PInt 30)
   \<and> trace (handle_events example_proxy
         [SingleInvalidation (Some (Data [2])) 0 0 1, SingleInvalidation (Some (Data [2])) 0 0 3])
       = [NearCacheInvalidate (Data [2]), NearCacheInvalidate (Data [2])]"
  by (simp add: handle_events_def handle_invalidation_def invalidate_cache_def
      NearCache_invalidate_def example_proxy_def)

section \<open>Properties of the blocking map\<close>

lemmas BlockingMap_defs =
  BlockingMap_add_entry_listener_def BlockingMap_add_index_def BlockingMap_add_interceptor_def
  BlockingMap_aggregate_def BlockingMap_clear_def BlockingMap_contains_key_def
  BlockingMap_contains_value_def BlockingMap_delete_def BlockingMap_entry_set_def
  BlockingMap_evict_def BlockingMap_evict_all_def BlockingMap_execute_on_entries_def
  BlockingMap_execute_on_key_def BlockingMap_execute_on_keys_def BlockingMap_flush_def
  BlockingMap_force_unlock_def BlockingMap_get_def BlockingMap_get_all_def
  BlockingMap_get_entry_view_def BlockingMap_is_empty_def BlockingMap_is_locked_def
  BlockingMap_key_set_def BlockingMap_load_all_def BlockingMap_lock_def
  BlockingMap_project_def BlockingMap_put_def BlockingMap_put_all_def
  BlockingMap_put_if_absent_def BlockingMap_put_transient_def BlockingMap_remove_def
  BlockingMap_remove_if_same_def BlockingMap_remove_entry_listener_def BlockingMap_remove_interceptor_def
  BlockingMap_replace_def BlockingMap_replace_if_same_def BlockingMap_set_def
  BlockingMap_set_ttl_def BlockingMap_size_def BlockingMap_try_lock_def
  BlockingMap_try_put_def BlockingMap_try_remove_def BlockingMap_unlock_def
  BlockingMap_values_def

text \<open>
  Claim C8. For every operation of the map surface and every argument tuple, the blocking
  map returns what invoking the same operation with the same arguments on the wrapped map
  and waiting on its future returns (\<open>wrapped.op(args).result()\<close>), with the same effect
  on the state: the blocking map adds no logic of its own.
\<close>

theorem blocking_map_is_thin_adapter:
  "BlockingMap_call wrapped result c s = blocking_spec wrapped result c s"
  by (cases c) (simp_all add: BlockingMap_defs then_result_def blocking_spec_def)

section \<open>Properties of fast-forwarding\<close>

lemma ff_items:
  "(\<And>t. t \<in> set ts \<Longrightarrow> well_bracketed t \<Longrightarrow> (\<forall>n rest. fast_forward (Suc n) (flatten t @ rest) = fast_forward (Suc n) rest)) \<Longrightarrow>
   list_all well_bracketed ts \<Longrightarrow>
   fast_forward (Suc n) (concat (map flatten ts) @ rest) = fast_forward (Suc n) rest"
  by (induction ts) auto

lemma ff_item:
  "well_bracketed t \<Longrightarrow> (\<forall>n rest. fast_forward (Suc n) (flatten t @ rest) = fast_forward (Suc n) rest)"
proof (induction t)
  case (Leaf f)
  then show ?case by simp
next
  case (Struct b members e)
  have m: "list_all well_bracketed members" using Struct.prems by simp
  show ?case
  proof (intro allI)
    fix n rest
    have "fast_forward (Suc n) (flatten (Struct b members e) @ rest)
          = fast_forward (Suc (Suc n)) (concat (map flatten members) @ e # rest)"
      using Struct.prems by simp
    also have "\<dots> = fast_forward (Suc (Suc n)) (e # rest)"
      using ff_items[of members "Suc n" "e # rest"] Struct.IH m by blast
    also have "\<dots> = fast_forward (Suc n) rest"
      using Struct.prems by simp
    finally show "fast_forward (Suc n) (flatten (Struct b members e) @ rest) = fast_forward (Suc n) rest" .
  qed
qed

text \<open>
  Claim C7. A message whose cursor stands on the begin frame of a well-bracketed nested
  structure (a begin frame, members that are plain frames or nested structures, an end
  frame), followed by any frames \<open>rest\<close>: reading the begin frame and fast-forwarding to
  the end frame leaves exactly \<open>rest\<close>, so the next frame read is the next sibling. The
  members are arbitrary, of any nesting depth, and may be none.
\<close>

theorem fast_forward_skips_structure:
  assumes "well_bracketed (Struct b members e)"
  shows "next_frame (flatten (Struct b members e) @ rest)
           = Some (b, concat (map flatten members) @ e # rest)
         \<and> fast_forward_to_end_frame (concat (map flatten members) @ e # rest) = Some rest"
proof -
  have m: "list_all well_bracketed members" and e: "is_end_frame e"
    using assms by simp_all
  have "fast_forward (Suc 0) (concat (map flatten members) @ e # rest)
          = fast_forward (Suc 0) (e # rest)"
    using ff_items[of members 0 "e # rest"] ff_item m by blast
  then show ?thesis
    using e by (simp add: fast_forward_to_end_frame_def next_frame_def)
qed

lemma flag_simps:
  "is_begin_frame BEGIN_FRAME" "\<not> is_end_frame BEGIN_FRAME"
  "is_end_frame END_FRAME" "\<not> is_begin_frame END_FRAME"
  "\<not> is_begin_frame (Frame [] 0)" "\<not> is_end_frame (Frame [] 0)"
  by (simp_all add: is_begin_frame_def is_end_frame_def is_flag_set_def BEGIN_FRAME_def END_FRAME_def
      BEGIN_DATA_STRUCTURE_FLAG_def END_DATA_STRUCTURE_FLAG_def)

theorem fast_forward_skips_structure_witness:
  "well_bracketed (Struct BEGIN_FRAME [Struct BEGIN_FRAME [Leaf (Frame [] 0)] END_FRAME] END_FRAME)
   \<and> next_frame [BEGIN_FRAME, BEGIN_FRAME, Frame [] 0, END_FRAME, END_FRAME]
       = Some (BEGIN_FRAME, [BEGIN_FRAME, Frame [] 0, END_FRAME, END_FRAME])
   \<and> fast_forward_to_end_frame [BEGIN_FRAME, Frame [] 0, END_FRAME, END_FRAME] = Some []
   \<and> \<not> has_next_frame []"
  using fast_forward_skips_structure
          [of BEGIN_FRAME "[Struct BEGIN_FRAME [Leaf (Frame [] 0)] END_FRAME]" END_FRAME "[]"]
  by (simp add: flag_simps has_next_frame_def)

end
